theory Spec2Isabelle
  imports Complex_Main "HOL-Library.Option_ord"
begin

section \<open>Data model (the Prisma schema)\<close>

text \<open>
  Object ids are generated by the store; they are modelled as numbers drawn from a
  counter kept with the database. \<open>Int\<close> columns are integers. The amounts of lots,
  usages and statistics (Prisma \<open>Float\<close>) are exact rationals; the numbers that
  \<open>calculateAdjustedUsageAmount\<close> computes with are double-precision values
  (\<open>js_number\<close>), because that function rounds.
\<close>

type_synonym ident = nat

text \<open>
  A JavaScript \<open>Date\<close>: the instant (\<open>getTime\<close>) and the two calendar readings that
  the code takes from it. \<open>getMonth\<close> is 0-indexed, as in JavaScript.
\<close>

record js_date =
  getTime :: int
  getFullYear :: int
  getMonth :: nat

datatype product_type =
    POLISH_COLOR | POLISH_BASE | POLISH_TOP
  | GEL_COLOR | GEL_BASE | GEL_TOP | GEL_REMOVER
  | NAIL_CARE | TOOL | CONSUMABLE | SANITIZATION | STORE_SUPPLY

datatype nail_length = SHORT | MEDIUM | LONG

record store =
  store_name :: string
  store_code :: string

record user =
  user_email :: string
  user_name :: string
  user_storeId :: ident

record product =
  p_id :: ident
  p_brand :: string
  p_productName :: string
  p_colorCode :: string
  p_colorName :: string
  p_opacity :: rat
  p_type :: product_type
  p_price :: rat
  p_isLiquid :: bool
  p_useColorPicker :: bool
  p_capacity :: "rat option"
  p_capacityUnit :: "string option"
  p_averageUsePerService :: "rat option"
  p_totalQuantity :: int
  p_inUseQuantity :: int
  p_lotQuantity :: int
  p_recommendedAlertPercentage :: int
  p_minStockAlert :: int
  p_usageCount :: int
  p_lastUsed :: "js_date option"
  p_storeId :: ident

record productLot =
  lot_id :: ident
  lot_productId :: ident
  lot_isInUse :: bool
  lot_currentAmount :: "rat option"
  lot_startedAt :: "js_date option"

text \<open>
  A JavaScript number: a finite IEEE 754 double, given by the rational it denotes, an
  infinity, or NaN. The two zeros are not distinguished.
\<close>

datatype js_number = Finite rat | PosInfinity | NegInfinity | NaN

record serviceType =
  st_name :: string
  st_defaultUsageAmount :: rat
  st_productType :: product_type
  st_isGelService :: bool
  st_shortLengthRate :: int
  st_mediumLengthRate :: int
  st_longLengthRate :: int
  st_designVariant :: "string option"
  st_designUsageRate :: "js_number option"
  st_storeId :: ident

record usage =
  u_id :: ident
  u_date :: js_date
  u_usageAmount :: rat
  u_defaultAmount :: "rat option"
  u_nailLength :: nail_length
  u_isCustomAmount :: bool
  u_isGelService :: bool
  u_serviceTypeId :: ident
  u_productId :: ident
  u_usedLotId :: "ident option"
  u_note :: "string option"

record relatedProductUsage =
  ru_id :: ident
  ru_usageId :: ident
  ru_productId :: ident
  ru_amount :: rat
  ru_defaultAmount :: "rat option"
  ru_isCustomAmount :: bool
  ru_role :: "string option"
  ru_order :: int
  ru_usedLotId :: "ident option"

text \<open>The JSON payloads that the inventory operations attach to an activity.\<close>

datatype activity_metadata =
    AddStockMeta ident int bool "rat option"
  | RecordUsageMeta ident ident ident rat

record activity =
  act_id :: ident
  act_userId :: ident
  act_type :: string
  act_action :: string
  act_metadata :: activity_metadata

text \<open>
  A monthly statistics row. \<open>usageCount\<close> is a count: rows are created with 1 and only
  ever incremented, so it is a natural number here.
\<close>

record monthlyServiceStat =
  ms_id :: ident
  ms_serviceTypeId :: ident
  ms_month :: int
  ms_year :: int
  ms_totalUsage :: rat
  ms_averageUsage :: rat
  ms_usageCount :: nat

text \<open>
  The document store. Tables looked up by their primary key only are maps; the lot
  table is a list in insertion order, because it is filtered and sorted; the tables that
  are only appended to are lists. Monthly statistics are keyed by the unique compound
  index \<open>(serviceTypeId, year, month)\<close>.
\<close>

record database =
  nextId :: ident
  stores :: "ident \<rightharpoonup> store"
  users :: "ident \<rightharpoonup> user"
  products :: "ident \<rightharpoonup> product"
  productLots :: "productLot list"
  serviceTypes :: "ident \<rightharpoonup> serviceType"
  usages :: "usage list"
  relatedProductUsages :: "relatedProductUsage list"
  activities :: "activity list"
  monthlyServiceStats :: "(ident \<times> int \<times> int) \<rightharpoonup> monthlyServiceStat"

text \<open>The errors the operations throw, named after their messages.\<close>

datatype error =
    StoreNotFound ident
  | ProductNotFound ident
  | UserNotFound ident
  | ServiceTypeNotFound ident
  | NoAvailableLots string
  | NotEnoughLeft rat rat
  | NoAvailableRelatedLots ident

section \<open>Persistence primitives\<close>

text \<open>
  An interactive or batch transaction: when the body throws, nothing it wrote is kept.
\<close>

definition transaction ::
  "(database \<Rightarrow> error + 'a \<times> database) \<Rightarrow> database \<Rightarrow> (error + 'a) \<times> database" where
  "transaction body db =
     (case body db of
        Inl e \<Rightarrow> (Inl e, db)
      | Inr (v, db') \<Rightarrow> (Inr v, db'))"

text \<open>\<open>productLot.create\<close>: the new row gets the next id and goes last.\<close>

definition productLot_create ::
  "ident \<Rightarrow> bool \<Rightarrow> rat option \<Rightarrow> js_date option \<Rightarrow> database \<Rightarrow> productLot \<times> database" where
  "productLot_create pid inUse amount started db =
     (let lot = \<lparr>lot_id = nextId db, lot_productId = pid, lot_isInUse = inUse,
                 lot_currentAmount = amount, lot_startedAt = started\<rparr>
      in (lot, db\<lparr>nextId := Suc (nextId db), productLots := productLots db @ [lot]\<rparr>))"

text \<open>
  \<open>productLot.update\<close> with \<open>currentAmount: {decrement: amt}\<close> on the row with the given
  id. A null amount stays null.
\<close>

definition productLot_decrement :: "ident \<Rightarrow> rat \<Rightarrow> database \<Rightarrow> database" where
  "productLot_decrement lid amt db =
     db\<lparr>productLots :=
          map (\<lambda>l. if lot_id l = lid
                    then l\<lparr>lot_currentAmount := map_option (\<lambda>c. c - amt) (lot_currentAmount l)\<rparr>
                    else l)
              (productLots db)\<rparr>"

text \<open>\<open>product.update\<close> by id; Prisma throws when the row is missing.\<close>

definition product_update ::
  "ident \<Rightarrow> (product \<Rightarrow> product) \<Rightarrow> database \<Rightarrow> error + database" where
  "product_update pid f db =
     (case products db pid of
        None \<Rightarrow> Inl (ProductNotFound pid)
      | Some p \<Rightarrow> Inr (db\<lparr>products := (products db)(pid \<mapsto> f p)\<rparr>))"

definition activity_create ::
  "ident \<Rightarrow> string \<Rightarrow> string \<Rightarrow> activity_metadata \<Rightarrow> database \<Rightarrow> database" where
  "activity_create uid ty action meta db =
     db\<lparr>nextId := Suc (nextId db),
        activities := activities db @
          [\<lparr>act_id = nextId db, act_userId = uid, act_type = ty, act_action = action,
            act_metadata = meta\<rparr>]\<rparr>"

text \<open>
  The relation \<open>currentProductLots\<close> of a product, restricted to \<open>isInUse: true\<close> and
  ordered by \<open>startedAt\<close> ascending. A null \<open>startedAt\<close> sorts first, as in the document
  store; lots with equal keys keep their stored order.
\<close>

definition startedKey :: "productLot \<Rightarrow> int option" where
  "startedKey l = map_option getTime (lot_startedAt l)"

definition inUseLots :: "database \<Rightarrow> ident \<Rightarrow> productLot list" where
  "inUseLots db pid =
     sort_key startedKey (filter (\<lambda>l. lot_productId l = pid \<and> lot_isInUse l) (productLots db))"

section \<open>Product and lot registry\<close>

record createProductParams =
  cp_brand :: string
  cp_productName :: string
  cp_colorCode :: "string option"
  cp_colorName :: "string option"
  cp_opacity :: "rat option"
  cp_type :: product_type
  cp_price :: rat
  cp_isLiquid :: "bool option"
  cp_useColorPicker :: "bool option"
  cp_capacity :: "rat option"
  cp_capacityUnit :: "string option"
  cp_averageUsePerService :: "rat option"
  cp_totalQuantity :: "int option"
  cp_recommendedAlertPercentage :: "int option"
  cp_minStockAlert :: "int option"
  cp_storeId :: ident

text \<open>A destructured parameter with a default value.\<close>

definition orDefault :: "'a option \<Rightarrow> 'a \<Rightarrow> 'a" where
  "orDefault v d = (case v of None \<Rightarrow> d | Some x \<Rightarrow> x)"

text \<open>The loop \<open>for (i = 0; i < totalQuantity; i++)\<close> creating unused lots.\<close>

fun createLots :: "nat \<Rightarrow> ident \<Rightarrow> database \<Rightarrow> database" where
  "createLots 0 pid db = db"
| "createLots (Suc k) pid db = createLots k pid (snd (productLot_create pid False None None db))"

definition createProduct ::
  "createProductParams \<Rightarrow> database \<Rightarrow> (error + product) \<times> database" where
  "createProduct ps db =
     (case stores db (cp_storeId ps) of
        None \<Rightarrow> (Inl (StoreNotFound (cp_storeId ps)), db)
      | Some s \<Rightarrow>
          (let totalQuantity = orDefault (cp_totalQuantity ps) 1;
               productRow = \<lparr>p_id = nextId db,
                       p_brand = cp_brand ps,
                       p_productName = cp_productName ps,
                       p_colorCode = orDefault (cp_colorCode ps) [],
                       p_colorName = orDefault (cp_colorName ps) [],
                       p_opacity = orDefault (cp_opacity ps) 1,
                       p_type = cp_type ps,
                       p_price = cp_price ps,
                       p_isLiquid = orDefault (cp_isLiquid ps) True,
                       p_useColorPicker = orDefault (cp_useColorPicker ps) True,
                       p_capacity = cp_capacity ps,
                       p_capacityUnit = cp_capacityUnit ps,
                       p_averageUsePerService = cp_averageUsePerService ps,
                       p_totalQuantity = totalQuantity,
                       p_inUseQuantity = 0,
                       p_lotQuantity = totalQuantity,
                       p_recommendedAlertPercentage = orDefault (cp_recommendedAlertPercentage ps) 20,
                       p_minStockAlert = orDefault (cp_minStockAlert ps) 5,
                       p_usageCount = 0,
                       p_lastUsed = None,
                       p_storeId = cp_storeId ps\<rparr>;
               db1 = db\<lparr>nextId := Suc (nextId db),
                        products := (products db)(nextId db \<mapsto> productRow)\<rparr>
           in (Inr productRow, createLots (nat totalQuantity) (p_id productRow) db1)))"

record addProductStockParams =
  as_productId :: ident
  as_quantity :: int
  as_currentAmount :: "rat option"
  as_isInUse :: "bool option"
  as_addedBy :: ident

definition addProductStock ::
  "js_date \<Rightarrow> addProductStockParams \<Rightarrow> database \<Rightarrow> (error + productLot) \<times> database" where
  "addProductStock now ps db =
     (let productId = as_productId ps;
          quantity = as_quantity ps;
          isInUse = orDefault (as_isInUse ps) False
      in case products db productId of
           None \<Rightarrow> (Inl (ProductNotFound productId), db)
         | Some productRow \<Rightarrow>
            (case users db (as_addedBy ps) of
               None \<Rightarrow> (Inl (UserNotFound (as_addedBy ps)), db)
             | Some u \<Rightarrow>
                (case transaction
                        (\<lambda>d. case productLot_create productId isInUse
                                     (if isInUse then as_currentAmount ps else None)
                                     (if isInUse then Some now else None) d of
                               (lot, d1) \<Rightarrow>
                                 (case product_update productId
                                         (\<lambda>p. p\<lparr>p_totalQuantity := p_totalQuantity p + quantity,
                                                 p_lotQuantity := p_lotQuantity p + (if isInUse then 0 else quantity),
                                                 p_inUseQuantity := p_inUseQuantity p + (if isInUse then quantity else 0)\<rparr>)
                                         d1 of
                                    Inl e \<Rightarrow> Inl e
                                  | Inr d2 \<Rightarrow> Inr (lot, d2)))
                        db of
                   (Inl e, d) \<Rightarrow> (Inl e, d)
                 | (Inr lot, d) \<Rightarrow>
                     (Inr lot,
                      activity_create (as_addedBy ps) ''INVENTORY'' ''ADD_STOCK''
                        (AddStockMeta productId quantity isInUse (as_currentAmount ps)) d))))"

section \<open>Usage recorder\<close>

record relatedProductEntry =
  rel_productId :: ident
  rel_amount :: rat
  rel_defaultAmount :: "rat option"
  rel_isCustomAmount :: "bool option"
  rel_role :: "string option"
  rel_order :: "int option"

record recordProductUsageParams =
  rp_productId :: ident
  rp_serviceTypeId :: ident
  rp_usageAmount :: rat
  rp_defaultAmount :: "rat option"
  rp_nailLength :: nail_length
  rp_isCustomAmount :: "bool option"
  rp_relatedProducts :: "relatedProductEntry list option"
  rp_note :: "string option"
  rp_recordedBy :: ident

text \<open>\<open>relatedProductUsage.create\<close> for one entry and the lot chosen for it.\<close>

definition relatedProductUsage_create ::
  "ident \<Rightarrow> relatedProductEntry \<Rightarrow> productLot \<Rightarrow> database \<Rightarrow> database" where
  "relatedProductUsage_create usageId related relatedLot db =
     db\<lparr>nextId := Suc (nextId db),
        relatedProductUsages := relatedProductUsages db @
          [\<lparr>ru_id = nextId db,
            ru_usageId = usageId,
            ru_productId = rel_productId related,
            ru_amount = rel_amount related,
            ru_defaultAmount = rel_defaultAmount related,
            ru_isCustomAmount = orDefault (rel_isCustomAmount related) False,
            ru_role = rel_role related,
            ru_order = orDefault (rel_order related) 0,
            ru_usedLotId = Some (lot_id relatedLot)\<rparr>]\<rparr>"

text \<open>The two writes of one iteration: the new row, then the decrement of the lot.\<close>

definition relatedStep ::
  "ident \<Rightarrow> relatedProductEntry \<Rightarrow> productLot \<Rightarrow> database \<Rightarrow> database" where
  "relatedStep usageId related relatedLot db =
     productLot_decrement (lot_id relatedLot) (rel_amount related)
       (relatedProductUsage_create usageId related relatedLot db)"

text \<open>
  The loop over \<open>relatedProducts\<close> inside the transaction. Each entry looks its product
  up with its in-use lots, takes the first lot, appends a \<open>RelatedProductUsage\<close> row and
  decrements that lot. The first entry that finds no product or no in-use lot throws.
\<close>

fun relatedLoop :: "ident \<Rightarrow> relatedProductEntry list \<Rightarrow> database \<Rightarrow> error + database" where
  "relatedLoop usageId [] db = Inr db"
| "relatedLoop usageId (related # rest) db =
     (case products db (rel_productId related) of
        None \<Rightarrow> Inl (NoAvailableRelatedLots (rel_productId related))
      | Some relatedProduct \<Rightarrow>
          (case inUseLots db (rel_productId related) of
             [] \<Rightarrow> Inl (NoAvailableRelatedLots (rel_productId related))
           | relatedLot # others \<Rightarrow>
               relatedLoop usageId rest (relatedStep usageId related relatedLot db)))"

text \<open>The body of the transaction of \<open>recordProductUsage\<close>.\<close>

definition usageTransaction ::
  "js_date \<Rightarrow> recordProductUsageParams \<Rightarrow> serviceType \<Rightarrow> productLot \<Rightarrow> database
     \<Rightarrow> error + usage \<times> database" where
  "usageTransaction now ps serviceType usedLot db =
     (let usage = \<lparr>u_id = nextId db,
                   u_date = now,
                   u_usageAmount = rp_usageAmount ps,
                   u_defaultAmount = rp_defaultAmount ps,
                   u_nailLength = rp_nailLength ps,
                   u_isCustomAmount = orDefault (rp_isCustomAmount ps) False,
                   u_isGelService = st_isGelService serviceType,
                   u_serviceTypeId = rp_serviceTypeId ps,
                   u_productId = rp_productId ps,
                   u_usedLotId = Some (lot_id usedLot),
                   u_note = rp_note ps\<rparr>;
          db1 = db\<lparr>nextId := Suc (nextId db), usages := usages db @ [usage]\<rparr>;
          db2 = productLot_decrement (lot_id usedLot) (rp_usageAmount ps) db1
      in case relatedLoop (u_id usage) (orDefault (rp_relatedProducts ps) []) db2 of
           Inl e \<Rightarrow> Inl e
         | Inr db3 \<Rightarrow>
            (case product_update (rp_productId ps)
                    (\<lambda>p. p\<lparr>p_usageCount := p_usageCount p + 1, p_lastUsed := Some now\<rparr>) db3 of
               Inl e \<Rightarrow> Inl e
             | Inr db4 \<Rightarrow>
                 Inr (usage,
                      activity_create (rp_recordedBy ps) ''INVENTORY'' ''RECORD_USAGE''
                        (RecordUsageMeta (u_id usage) (rp_productId ps) (rp_serviceTypeId ps)
                           (rp_usageAmount ps)) db4)))"

text \<open>
  \<open>recordProductUsage\<close>: the checks before the transaction, then the transaction. The
  clock reading \<open>now\<close> stands for \<open>new Date()\<close>.
\<close>

definition recordProductUsage ::
  "js_date \<Rightarrow> recordProductUsageParams \<Rightarrow> database \<Rightarrow> (error + usage) \<times> database" where
  "recordProductUsage now ps db =
     (case products db (rp_productId ps) of
        None \<Rightarrow> (Inl (ProductNotFound (rp_productId ps)), db)
      | Some productRow \<Rightarrow>
         (case inUseLots db (rp_productId ps) of
            [] \<Rightarrow> (Inl (NoAvailableLots (p_productName productRow)), db)
          | usedLot # others \<Rightarrow>
             (case serviceTypes db (rp_serviceTypeId ps) of
                None \<Rightarrow> (Inl (ServiceTypeNotFound (rp_serviceTypeId ps)), db)
              | Some serviceType \<Rightarrow>
                 (case users db (rp_recordedBy ps) of
                    None \<Rightarrow> (Inl (UserNotFound (rp_recordedBy ps)), db)
                  | Some u \<Rightarrow>
                     (case lot_currentAmount usedLot of
                        None \<Rightarrow> transaction (usageTransaction now ps serviceType usedLot) db
                      | Some c \<Rightarrow>
                          if c < rp_usageAmount ps
                          then (Inl (NotEnoughLeft c (rp_usageAmount ps)), db)
                          else transaction (usageTransaction now ps serviceType usedLot) db)))))"

section \<open>Service type catalog and monthly statistics\<close>

subsection \<open>Double-precision arithmetic\<close>

text \<open>\<open>pow2 n\<close> is 2 to the power \<open>n\<close>, for any integer \<open>n\<close>.\<close>

definition pow2 :: "int \<Rightarrow> rat" where
  "pow2 n = (if 0 \<le> n then 2 ^ nat n else 1 / 2 ^ nat (- n))"

text \<open>
  The binary exponent of a positive rational, \<open>ilog2 x = \<lfloor>log\<^sub>2 x\<rfloor>\<close>: the number of
  halvings that bring \<open>x \<ge> 1\<close> below 2, or minus the number of doublings that bring
  \<open>x < 1\<close> up to 1.
\<close>

function halvings :: "rat \<Rightarrow> nat" where
  "halvings x = (if 2 \<le> x then Suc (halvings (x / 2)) else 0)"
  by pat_completeness auto
termination
proof (relation "measure (\<lambda>x. nat \<lfloor>x\<rfloor>)")
  show "wf (measure (\<lambda>x::rat. nat \<lfloor>x\<rfloor>))" by simp
next
  fix x :: rat
  assume "2 \<le> x"
  then have "\<lfloor>x / 2\<rfloor> \<le> \<lfloor>x - 1\<rfloor>" by (intro floor_mono) linarith
  moreover from \<open>2 \<le> x\<close> have "2 \<le> \<lfloor>x\<rfloor>" by (simp add: le_floor_iff)
  ultimately show "(x / 2, x) \<in> measure (\<lambda>x. nat \<lfloor>x\<rfloor>)" by simp
qed

function doublings :: "rat \<Rightarrow> nat" where
  "doublings x = (if 0 < x \<and> x < 1 then Suc (doublings (2 * x)) else 0)"
  by pat_completeness auto
termination
proof (relation "measure (\<lambda>x. nat \<lceil>1 / x\<rceil>)")
  show "wf (measure (\<lambda>x::rat. nat \<lceil>1 / x\<rceil>))" by simp
next
  fix x :: rat
  assume x: "0 < x \<and> x < 1"
  then have "1 < 1 / x" by simp
  then have two: "2 \<le> \<lceil>1 / x\<rceil>" by (simp add: less_ceiling_iff) 
  have "1 / x \<le> of_int \<lceil>1 / x\<rceil>" by (rule le_of_int_ceiling)
  then have "1 / (2 * x) \<le> of_int \<lceil>1 / x\<rceil> / 2" by simp
  also have "\<dots> \<le> of_int (\<lceil>1 / x\<rceil> - 1)" using two by simp
  finally have "\<lceil>1 / (2 * x)\<rceil> \<le> \<lceil>1 / x\<rceil> - 1" by (rule ceiling_le)
  with two have "nat \<lceil>1 / (2 * x)\<rceil> < nat \<lceil>1 / x\<rceil>" by arith
  then show "(2 * x, x) \<in> measure (\<lambda>x. nat \<lceil>1 / x\<rceil>)" by (simp only: in_measure)
qed

declare halvings.simps [simp del] doublings.simps [simp del]

definition ilog2 :: "rat \<Rightarrow> int" where
  "ilog2 x = (if 1 \<le> x then int (halvings x) else - int (doublings x))"

text \<open>The nearest integer, a tie going to the even one.\<close>

definition roundHalfEven :: "rat \<Rightarrow> int" where
  "roundHalfEven x =
     (if x - of_int \<lfloor>x\<rfloor> < 1 / 2 then \<lfloor>x\<rfloor>
      else if 1 / 2 < x - of_int \<lfloor>x\<rfloor> then \<lfloor>x\<rfloor> + 1
      else if even \<lfloor>x\<rfloor> then \<lfloor>x\<rfloor> else \<lfloor>x\<rfloor> + 1)"

text \<open>
  The exponent of the unit in the last place of the doubles around \<open>x\<close>: 52 below the
  binary exponent of \<open>x\<close>, and never below that of the subnormal numbers.
\<close>

definition ulpExp :: "rat \<Rightarrow> int" where
  "ulpExp x = max (ilog2 \<bar>x\<bar> - 52) (- 1074)"

text \<open>
  The double nearest to a rational (round to nearest, ties to even): the multiple of the
  unit in the last place nearest to \<open>x\<close>, or an infinity when that multiple is beyond
  the largest double.
\<close>

definition toDouble :: "rat \<Rightarrow> js_number" where
  "toDouble x =
     (if x = 0 then Finite 0
      else if 2 ^ 1024 \<le> \<bar>of_int (roundHalfEven (x / pow2 (ulpExp x))) * pow2 (ulpExp x)\<bar>
      then (if 0 < x then PosInfinity else NegInfinity)
      else Finite (of_int (roundHalfEven (x / pow2 (ulpExp x))) * pow2 (ulpExp x)))"

text \<open>The operator \<open>*\<close> on numbers.\<close>

definition infinityTimes :: "rat \<Rightarrow> js_number" where
  "infinityTimes a = (if a = 0 then NaN else if 0 < a then PosInfinity else NegInfinity)"

fun js_times :: "js_number \<Rightarrow> js_number \<Rightarrow> js_number" where
  "js_times (Finite a) (Finite b) = toDouble (a * b)"
| "js_times NaN y = NaN"
| "js_times x NaN = NaN"
| "js_times (Finite a) PosInfinity = infinityTimes a"
| "js_times (Finite a) NegInfinity = infinityTimes (- a)"
| "js_times PosInfinity (Finite b) = infinityTimes b"
| "js_times NegInfinity (Finite b) = infinityTimes (- b)"
| "js_times PosInfinity PosInfinity = PosInfinity"
| "js_times PosInfinity NegInfinity = NegInfinity"
| "js_times NegInfinity PosInfinity = NegInfinity"
| "js_times NegInfinity NegInfinity = PosInfinity"

text \<open>The quotient \<open>x / 100\<close>.\<close>

fun js_div100 :: "js_number \<Rightarrow> js_number" where
  "js_div100 (Finite a) = toDouble (a / 100)"
| "js_div100 x = x"

text \<open>
  \<open>Math.round\<close>: the nearest integer, a tie going up. The result is exact: a double
  that is not an integer is below \<open>2\<^sup>5\<^sup>2\<close> in magnitude, where every integer is a
  double.
\<close>

fun Math_round :: "js_number \<Rightarrow> js_number" where
  "Math_round (Finite a) = Finite (of_int \<lfloor>a + 1 / 2\<rfloor>)"
| "Math_round x = x"

text \<open>The test \<open>if (x)\<close> on a number: false for 0 and for NaN.\<close>

fun js_truthy :: "js_number \<Rightarrow> bool" where
  "js_truthy (Finite a) = (a \<noteq> 0)"
| "js_truthy NaN = False"
| "js_truthy x = True"

text \<open>
  \<open>parseFloat(x.toFixed(2))\<close>. Below \<open>10\<^sup>2\<^sup>1\<close> in magnitude, \<open>toFixed(2)\<close> writes the
  multiple of 1/100 nearest to the value of \<open>x\<close>, a tie going away from zero, and
  \<open>parseFloat\<close> reads it back as the nearest double. From \<open>10\<^sup>2\<^sup>1\<close> on, and for an
  infinity or NaN, the string is that of the number itself and reads back as \<open>x\<close>.
\<close>

fun toFixed2 :: "js_number \<Rightarrow> js_number" where
  "toFixed2 (Finite x) =
     (if 10 ^ 21 \<le> \<bar>x\<bar> then Finite x
      else if x < 0 then toDouble (- (of_int \<lfloor>- x * 100 + 1 / 2\<rfloor> / 100))
      else toDouble (of_int \<lfloor>x * 100 + 1 / 2\<rfloor> / 100))"
| "toFixed2 x = x"

subsection \<open>The operations\<close>

text \<open>
  \<open>calculateAdjustedUsageAmount\<close>. The rates are \<open>Int\<close> columns, which are doubles
  exactly. The \<open>default\<close> branch of the switch is not reachable for a value of the enum.
  The test \<open>if (serviceType.designUsageRate)\<close> is false for a null rate, for 0 and for
  NaN.
\<close>

definition calculateAdjustedUsageAmount ::
  "serviceType \<Rightarrow> js_number \<Rightarrow> nail_length \<Rightarrow> js_number" where
  "calculateAdjustedUsageAmount serviceType baseAmount nailLength =
     (let ratePercentage =
            (case nailLength of
               SHORT \<Rightarrow> Finite (of_int (st_shortLengthRate serviceType))
             | MEDIUM \<Rightarrow> Finite (of_int (st_mediumLengthRate serviceType))
             | LONG \<Rightarrow> Finite (of_int (st_longLengthRate serviceType)));
          adjusted =
            (case st_designUsageRate serviceType of
               None \<Rightarrow> ratePercentage
             | Some d \<Rightarrow>
                 if js_truthy d then Math_round (js_times ratePercentage d)
                 else ratePercentage)
      in toFixed2 (js_times baseAmount (js_div100 adjusted)))"

definition updateMonthlyStats :: "ident \<Rightarrow> rat \<Rightarrow> js_date \<Rightarrow> database \<Rightarrow> database" where
  "updateMonthlyStats serviceTypeId usageAmount date db =
     (let year = getFullYear date;
          month = int (getMonth date) + 1
      in case monthlyServiceStats db (serviceTypeId, year, month) of
           Some existingStat \<Rightarrow>
             db\<lparr>monthlyServiceStats := (monthlyServiceStats db)((serviceTypeId, year, month) \<mapsto>
                  existingStat\<lparr>ms_totalUsage := ms_totalUsage existingStat + usageAmount,
                               ms_usageCount := ms_usageCount existingStat + 1,
                               ms_averageUsage :=
                                 (ms_totalUsage existingStat + usageAmount) /
                                 of_nat (ms_usageCount existingStat + 1)\<rparr>)\<rparr>
         | None \<Rightarrow>
             db\<lparr>nextId := Suc (nextId db),
                monthlyServiceStats := (monthlyServiceStats db)((serviceTypeId, year, month) \<mapsto>
                  \<lparr>ms_id = nextId db,
                   ms_serviceTypeId = serviceTypeId,
                   ms_month = month,
                   ms_year = year,
                   ms_totalUsage = usageAmount,
                   ms_averageUsage = usageAmount,
                   ms_usageCount = 1\<rparr>)\<rparr>)"

section \<open>Derived notions\<close>

text \<open>
  The fields of a lot that no operation on usages writes: everything but
  \<open>currentAmount\<close>.
\<close>

definition lotShape :: "productLot \<Rightarrow> ident \<times> ident \<times> bool \<times> js_date option" where
  "lotShape l = (lot_id l, lot_productId l, lot_isInUse l, lot_startedAt l)"

text \<open>The destructured \<open>relatedProducts = []\<close>.\<close>

definition relatedOf :: "recordProductUsageParams \<Rightarrow> relatedProductEntry list" where
  "relatedOf ps = orDefault (rp_relatedProducts ps) []"

text \<open>The \<open>Usage\<close> row that the transaction creates.\<close>

definition usageRow :: "js_date \<Rightarrow> recordProductUsageParams \<Rightarrow> serviceType \<Rightarrow> productLot \<Rightarrow> database \<Rightarrow> usage" where
  "usageRow now ps serviceType usedLot db =
     \<lparr>u_id = nextId db,
      u_date = now,
      u_usageAmount = rp_usageAmount ps,
      u_defaultAmount = rp_defaultAmount ps,
      u_nailLength = rp_nailLength ps,
      u_isCustomAmount = orDefault (rp_isCustomAmount ps) False,
      u_isGelService = st_isGelService serviceType,
      u_serviceTypeId = rp_serviceTypeId ps,
      u_productId = rp_productId ps,
      u_usedLotId = Some (lot_id usedLot),
      u_note = rp_note ps\<rparr>"

text \<open>The database after the first two writes of the transaction.\<close>

definition afterPrimary :: "js_date \<Rightarrow> recordProductUsageParams \<Rightarrow> serviceType \<Rightarrow> productLot \<Rightarrow> database \<Rightarrow> database" where
  "afterPrimary now ps serviceType usedLot db =
     productLot_decrement (lot_id usedLot) (rp_usageAmount ps)
       (db\<lparr>nextId := Suc (nextId db),
           usages := usages db @ [usageRow now ps serviceType usedLot db]\<rparr>)"

text \<open>
  The lots a call draws from: the oldest in-use lot of the primary product and of each
  related product, where there is one.
\<close>

definition drawnLotIds :: "database \<Rightarrow> recordProductUsageParams \<Rightarrow> ident list" where
  "drawnLotIds db ps =
     map lot_id
       (concat (map (\<lambda>q. take 1 (inUseLots db q))
                    (rp_productId ps # map rel_productId (relatedOf ps))))"

text \<open>
  The id of the lot that \<open>findMany\<close> puts first for a product: the lot a call draws from.
\<close>

definition headLotId :: "database \<Rightarrow> ident \<Rightarrow> ident option" where
  "headLotId db q = (case inUseLots db q of [] \<Rightarrow> None | x # xs \<Rightarrow> Some (lot_id x))"

text \<open>
  What a call subtracts from the lot with a given id: the usage amount if the primary product
  draws from it, plus the amount of every related entry that draws from it.
\<close>

definition drawnFrom :: "database \<Rightarrow> recordProductUsageParams \<Rightarrow> ident \<Rightarrow> rat" where
  "drawnFrom db ps lid =
     (if headLotId db (rp_productId ps) = Some lid then rp_usageAmount ps else 0) +
     sum_list (map rel_amount
       (filter (\<lambda>r. headLotId db (rel_productId r) = Some lid) (relatedOf ps)))"

text \<open>A lot after \<open>currentAmount: { decrement: amount }\<close>; a null amount stays null.\<close>

definition drawLot :: "rat \<Rightarrow> productLot \<Rightarrow> productLot" where
  "drawLot amount l = l\<lparr>lot_currentAmount := map_option (\<lambda>c. c - amount) (lot_currentAmount l)\<rparr>"

text \<open>An unused lot of a product, as \<open>createProduct\<close> makes them.\<close>

definition isUnusedLotOf :: "ident \<Rightarrow> productLot \<Rightarrow> bool" where
  "isUnusedLotOf pid l =
     (lot_productId l = pid \<and> \<not> lot_isInUse l \<and> lot_currentAmount l = None \<and>
      lot_startedAt l = None)"

text \<open>The length-rate percentage matching the nail length.\<close>

definition lengthRate :: "serviceType \<Rightarrow> nail_length \<Rightarrow> int" where
  "lengthRate st len =
     (case len of
        SHORT \<Rightarrow> st_shortLengthRate st
      | MEDIUM \<Rightarrow> st_mediumLengthRate st
      | LONG \<Rightarrow> st_longLengthRate st)"

text \<open>
  The adjusted amount as the specification words it: the length rate, multiplied by the
  design rate and rounded to an integer whenever a design rate is set, then
  \<open>baseAmount * rate / 100\<close> rounded to two decimals.
\<close>

definition claimedAdjustedUsageAmount ::
  "serviceType \<Rightarrow> js_number \<Rightarrow> nail_length \<Rightarrow> js_number" where
  "claimedAdjustedUsageAmount st baseAmount len =
     (let rate = (case st_designUsageRate st of
                    None \<Rightarrow> Finite (of_int (lengthRate st len))
                  | Some d \<Rightarrow> Math_round (js_times (Finite (of_int (lengthRate st len))) d))
      in toFixed2 (js_times baseAmount (js_div100 rate)))"

text \<open>The percentage that the code applies.\<close>

definition appliedRate :: "serviceType \<Rightarrow> nail_length \<Rightarrow> js_number" where
  "appliedRate st len =
     (case st_designUsageRate st of
        None \<Rightarrow> Finite (of_int (lengthRate st len))
      | Some d \<Rightarrow> if js_truthy d then Math_round (js_times (Finite (of_int (lengthRate st len))) d)
                  else Finite (of_int (lengthRate st len)))"

text \<open>
  The number of lot rows of a product (all, in use, unused), and the product's three
  counters (\<open>totalQuantity\<close>, \<open>inUseQuantity\<close>, \<open>lotQuantity\<close>).
\<close>

definition lotCounts :: "database \<Rightarrow> ident \<Rightarrow> int \<times> int \<times> int" where
  "lotCounts db pid =
     (int (length (filter (\<lambda>l. lot_productId l = pid) (productLots db))),
      int (length (filter (\<lambda>l. lot_productId l = pid \<and> lot_isInUse l) (productLots db))),
      int (length (filter (\<lambda>l. lot_productId l = pid \<and> \<not> lot_isInUse l) (productLots db))))"

definition productCounters :: "database \<Rightarrow> ident \<Rightarrow> (int \<times> int \<times> int) option" where
  "productCounters db pid =
     map_option (\<lambda>p. (p_totalQuantity p, p_inUseQuantity p, p_lotQuantity p)) (products db pid)"

section \<open>Example data\<close>

text \<open>
  A store with one user, one service type and three products. The colour polish has
  two open bottles, lot 21 opened before lot 20, and one unopened; the base coat has
  one open bottle; the top coat has none open.
\<close>

definition exampleProduct :: "ident \<Rightarrow> string \<Rightarrow> product_type \<Rightarrow> int \<Rightarrow> int \<Rightarrow> product" where
  "exampleProduct i name ty inUse unused =
     \<lparr>p_id = i, p_brand = ''OPI'', p_productName = name, p_colorCode = [], p_colorName = [],
      p_opacity = 1, p_type = ty, p_price = 1200, p_isLiquid = True, p_useColorPicker = True,
      p_capacity = Some 15, p_capacityUnit = Some ''ml'', p_averageUsePerService = None,
      p_totalQuantity = inUse + unused, p_inUseQuantity = inUse, p_lotQuantity = unused,
      p_recommendedAlertPercentage = 20, p_minStockAlert = 5, p_usageCount = 0,
      p_lastUsed = None, p_storeId = 1\<rparr>"

definition exampleDate :: "int \<Rightarrow> js_date" where
  "exampleDate t = \<lparr>getTime = t, getFullYear = 2025, getMonth = 2\<rparr>"

definition exampleLot :: "ident \<Rightarrow> ident \<Rightarrow> (rat \<times> int) option \<Rightarrow> productLot" where
  "exampleLot i pid opened =
     \<lparr>lot_id = i, lot_productId = pid, lot_isInUse = (opened \<noteq> None),
      lot_currentAmount = map_option fst opened,
      lot_startedAt = map_option (\<lambda>x. exampleDate (snd x)) opened\<rparr>"

definition exampleServiceType :: "js_number option \<Rightarrow> serviceType" where
  "exampleServiceType design =
     \<lparr>st_name = ''Adjustable Manicure'', st_defaultUsageAmount = 1 / 2,
      st_productType = POLISH_COLOR, st_isGelService = False,
      st_shortLengthRate = 80, st_mediumLengthRate = 100, st_longLengthRate = 150,
      st_designVariant = None, st_designUsageRate = design, st_storeId = 1\<rparr>"

definition exampleDb :: "productLot list \<Rightarrow> database" where
  "exampleDb lots =
     \<lparr>nextId = 100,
      stores = [1 \<mapsto> \<lparr>store_name = ''Test Nail Salon'', store_code = ''TEST001''\<rparr>],
      users = [2 \<mapsto> \<lparr>user_email = ''owner@test.com'', user_name = ''Owner'', user_storeId = 1\<rparr>],
      products = [10 \<mapsto> exampleProduct 10 ''Red Polish'' POLISH_COLOR 2 1,
                  11 \<mapsto> exampleProduct 11 ''Base Coat'' POLISH_BASE 1 0,
                  12 \<mapsto> exampleProduct 12 ''Top Coat'' POLISH_TOP 0 1],
      productLots = lots,
      serviceTypes = [30 \<mapsto> exampleServiceType None],
      usages = [], relatedProductUsages = [], activities = [],
      monthlyServiceStats = Map.empty\<rparr>"

definition exampleLots :: "productLot list" where
  "exampleLots =
     [exampleLot 20 10 (Some (15, 200)), exampleLot 21 10 (Some (8, 100)),
      exampleLot 22 10 None, exampleLot 23 11 (Some (1, 150)), exampleLot 24 12 None]"

definition exampleRelated :: "ident \<Rightarrow> rat \<Rightarrow> relatedProductEntry" where
  "exampleRelated pid amount =
     \<lparr>rel_productId = pid, rel_amount = amount, rel_defaultAmount = None,
      rel_isCustomAmount = None, rel_role = None, rel_order = None\<rparr>"

definition exampleUsage :: "rat \<Rightarrow> relatedProductEntry list \<Rightarrow> recordProductUsageParams" where
  "exampleUsage amount related =
     \<lparr>rp_productId = 10, rp_serviceTypeId = 30, rp_usageAmount = amount,
      rp_defaultAmount = None, rp_nailLength = MEDIUM, rp_isCustomAmount = None,
      rp_relatedProducts = Some related, rp_note = None, rp_recordedBy = 2\<rparr>"

text \<open>A product whose oldest open bottle, lot 21, is empty while lot 20 is full.\<close>

definition depletedLots :: "productLot list" where
  "depletedLots = [exampleLot 20 10 (Some (15, 200)), exampleLot 21 10 (Some (0, 100))]"

definition exampleStock :: "int \<Rightarrow> addProductStockParams" where
  "exampleStock q =
     \<lparr>as_productId = 10, as_quantity = q, as_currentAmount = None, as_isInUse = None,
      as_addedBy = 2\<rparr>"

definition exampleNewProduct :: "ident \<Rightarrow> int option \<Rightarrow> createProductParams" where
  "exampleNewProduct storeId quantity =
     \<lparr>cp_brand = ''OPI'', cp_productName = ''Red Nail Polish'', cp_colorCode = Some ''#FF0000'',
      cp_colorName = Some ''Ruby Red'', cp_opacity = None, cp_type = POLISH_COLOR,
      cp_price = 1200, cp_isLiquid = None, cp_useColorPicker = None, cp_capacity = Some 15,
      cp_capacityUnit = Some ''ml'', cp_averageUsePerService = None,
      cp_totalQuantity = quantity, cp_recommendedAlertPercentage = None,
      cp_minStockAlert = None, cp_storeId = storeId\<rparr>"

lemmas stock_defs = addProductStock_def productLot_create_def lotCounts_def productCounters_def
  exampleStock_def

lemmas example_defs = exampleProduct_def exampleDate_def exampleLot_def exampleServiceType_def
  exampleDb_def exampleLots_def exampleRelated_def exampleUsage_def

lemmas model_defs = recordProductUsage_def usageTransaction_def transaction_def relatedStep_def
  relatedProductUsage_create_def productLot_decrement_def product_update_def activity_create_def
  inUseLots_def startedKey_def orDefault_def relatedOf_def Let_def

section \<open>Lots keep their shape\<close>

lemma map_insort_key_comp:
  "map f (insort_key (\<lambda>a. k (f a)) x ys) = insort_key k (f x) (map f ys)"
  by (induction ys) auto

lemma map_sort_key_comp:
  "map f (sort_key (\<lambda>a. k (f a)) xs) = sort_key k (map f xs)"
  by (induction xs) (auto simp: map_insort_key_comp)

lemma inUseLots_via_shape:
  "map lotShape (inUseLots db pid) =
     sort_key (\<lambda>s. map_option getTime (snd (snd (snd s))))
       (filter (\<lambda>s. fst (snd s) = pid \<and> fst (snd (snd s))) (map lotShape (productLots db)))"
proof -
  have s: "map lotShape (sort_key startedKey xs) =
           sort_key (\<lambda>s. map_option getTime (snd (snd (snd s)))) (map lotShape xs)" for xs
    using map_sort_key_comp [of lotShape "\<lambda>s. map_option getTime (snd (snd (snd s)))" xs]
    by (simp add: lotShape_def startedKey_def [abs_def])
  have f: "filter (\<lambda>s. fst (snd s) = pid \<and> fst (snd (snd s))) (map lotShape xs) =
           map lotShape (filter (\<lambda>l. lot_productId l = pid \<and> lot_isInUse l) xs)" for xs
    by (simp add: filter_map comp_def lotShape_def)
  show ?thesis
    unfolding inUseLots_def by (simp only: s f)
qed

lemma inUseLots_shape_cong:
  "map lotShape (productLots db') = map lotShape (productLots db) \<Longrightarrow>
   map lotShape (inUseLots db' pid) = map lotShape (inUseLots db pid)"
  by (simp add: inUseLots_via_shape)

lemma shape_nil_iff:
  "map lotShape xs = map lotShape ys \<Longrightarrow> xs = [] \<longleftrightarrow> ys = []"
  by (cases xs; cases ys) auto

lemma shape_head:
  "map lotShape xs = map lotShape ys \<Longrightarrow> xs = x # xs' \<Longrightarrow>
   \<exists>y ys'. ys = y # ys' \<and> lot_id y = lot_id x"
  by (cases ys) (auto simp: lotShape_def)

lemma relatedStep_frame:
  "products (relatedStep u r l db) = products db"
  "stores (relatedStep u r l db) = stores db"
  "users (relatedStep u r l db) = users db"
  "serviceTypes (relatedStep u r l db) = serviceTypes db"
  "usages (relatedStep u r l db) = usages db"
  "activities (relatedStep u r l db) = activities db"
  "monthlyServiceStats (relatedStep u r l db) = monthlyServiceStats db"
  by (simp_all add: relatedStep_def productLot_decrement_def relatedProductUsage_create_def)

lemma relatedStep_shape:
  "map lotShape (productLots (relatedStep u r l db)) = map lotShape (productLots db)"
  by (simp add: relatedStep_def productLot_decrement_def relatedProductUsage_create_def
      lotShape_def comp_def)

lemma relatedStep_inUseLots_nil:
  "inUseLots (relatedStep u r l db) q = [] \<longleftrightarrow> inUseLots db q = []"
  by (rule shape_nil_iff) (rule inUseLots_shape_cong, rule relatedStep_shape)

lemma relatedLoop_fails:
  "\<exists>r\<in>set rs. products db (rel_productId r) = None \<or> inUseLots db (rel_productId r) = []
   \<Longrightarrow> \<exists>e. relatedLoop u rs db = Inl e"
proof (induction rs arbitrary: db)
  case Nil
  then show ?case by simp
next
  case (Cons r rs)
  show ?case
  proof (cases "products db (rel_productId r) = None \<or> inUseLots db (rel_productId r) = []")
    case True
    then show ?thesis
      by (auto split: option.splits list.splits)
  next
    case False
    then obtain p l ls where p: "products db (rel_productId r) = Some p"
      and l: "inUseLots db (rel_productId r) = l # ls"
      by (auto simp: neq_Nil_conv)
    from False Cons.prems
    have "\<exists>r'\<in>set rs. products (relatedStep u r l db) (rel_productId r') = None \<or>
                       inUseLots (relatedStep u r l db) (rel_productId r') = []"
      by (auto simp: relatedStep_frame relatedStep_inUseLots_nil)
    from Cons.IH [OF this] show ?thesis
      by (simp add: p l)
  qed
qed

lemma relatedLoop_frame:
  "relatedLoop u rs db = Inr db' \<Longrightarrow>
     products db' = products db \<and> stores db' = stores db \<and> users db' = users db \<and>
     serviceTypes db' = serviceTypes db \<and> usages db' = usages db \<and>
     activities db' = activities db \<and> monthlyServiceStats db' = monthlyServiceStats db"
proof (induction rs arbitrary: db)
  case Nil
  then show ?case by simp
next
  case (Cons r rs)
  from Cons.prems obtain l where "relatedLoop u rs (relatedStep u r l db) = Inr db'"
    by (auto split: option.splits list.splits)
  from Cons.IH [OF this] show ?case
    by (simp add: relatedStep_frame)
qed

lemma relatedLoop_lots:
  "relatedLoop u rs db = Inr db' \<Longrightarrow>
     \<exists>F. productLots db' = map F (productLots db) \<and>
         (\<forall>l. lotShape (F l) = lotShape l) \<and>
         (\<forall>l. F l \<noteq> l \<longrightarrow>
              (\<exists>r\<in>set rs. \<exists>x xs. inUseLots db (rel_productId r) = x # xs \<and> lot_id l = lot_id x))"
proof (induction rs arbitrary: db)
  case Nil
  then have "productLots db' = map (\<lambda>l. l) (productLots db)" by simp
  then show ?case by (intro exI [of _ "\<lambda>l. l"]) simp
next
  case (Cons r rs)
  from Cons.prems obtain x xs where x: "inUseLots db (rel_productId r) = x # xs"
    and rest: "relatedLoop u rs (relatedStep u r x db) = Inr db'"
    by (auto split: option.splits list.splits)
  define g where "g = (\<lambda>l::productLot. if lot_id l = lot_id x
      then l\<lparr>lot_currentAmount := map_option (\<lambda>c. c - rel_amount r) (lot_currentAmount l)\<rparr>
      else l)"
  have g_lots: "productLots (relatedStep u r x db) = map g (productLots db)"
    by (simp add: relatedStep_def productLot_decrement_def relatedProductUsage_create_def g_def)
  have g_shape: "lotShape (g l) = lotShape l" for l
    by (simp add: g_def lotShape_def)
  have g_id: "g l \<noteq> l \<Longrightarrow> lot_id l = lot_id x" for l
    by (simp add: g_def split: if_splits)
  from Cons.IH [OF rest] obtain F where F:
    "productLots db' = map F (productLots (relatedStep u r x db)) \<and>
     (\<forall>l. lotShape (F l) = lotShape l) \<and>
     (\<forall>l. F l \<noteq> l \<longrightarrow>
        (\<exists>r'\<in>set rs. \<exists>y ys. inUseLots (relatedStep u r x db) (rel_productId r') = y # ys \<and>
                               lot_id l = lot_id y))" ..
  have lots: "productLots db' = map (\<lambda>l. F (g l)) (productLots db)"
    using F by (simp add: g_lots comp_def)
  have shape: "lotShape (F (g l)) = lotShape l" for l
    using F by (simp add: g_shape)
  have ids: "\<exists>r'\<in>set (r # rs). \<exists>y ys. inUseLots db (rel_productId r') = y # ys \<and> lot_id l = lot_id y"
    if neq: "F (g l) \<noteq> l" for l
  proof (cases "g l = l")
    case False
    then have "lot_id l = lot_id x" by (rule g_id)
    with x have "inUseLots db (rel_productId r) = x # xs \<and> lot_id l = lot_id x" by simp
    then show ?thesis by (intro bexI [of _ r] exI) simp_all
  next
    case True
    with neq have "F l \<noteq> l" by simp
    with F obtain r' y ys where r': "r' \<in> set rs"
      and y: "inUseLots (relatedStep u r x db) (rel_productId r') = y # ys"
      and ly: "lot_id l = lot_id y"
      by blast
    from shape_head [OF inUseLots_shape_cong [OF relatedStep_shape] y]
    obtain z zs where "inUseLots db (rel_productId r') = z # zs" "lot_id z = lot_id y"
      by blast
    with ly have "inUseLots db (rel_productId r') = z # zs \<and> lot_id l = lot_id z" by simp
    with r' show ?thesis by (intro bexI [of _ r'] exI) simp_all
  qed
  show ?case
    by (intro exI [of _ "\<lambda>l. F (g l)"] conjI allI impI lots shape ids)
qed

section \<open>The transaction of recordProductUsage\<close>

lemma afterPrimary_frame:
  "products (afterPrimary now ps st l db) = products db"
  "stores (afterPrimary now ps st l db) = stores db"
  "users (afterPrimary now ps st l db) = users db"
  "serviceTypes (afterPrimary now ps st l db) = serviceTypes db"
  "usages (afterPrimary now ps st l db) = usages db @ [usageRow now ps st l db]"
  "relatedProductUsages (afterPrimary now ps st l db) = relatedProductUsages db"
  "activities (afterPrimary now ps st l db) = activities db"
  "monthlyServiceStats (afterPrimary now ps st l db) = monthlyServiceStats db"
  by (simp_all add: afterPrimary_def productLot_decrement_def)

lemma afterPrimary_shape:
  "map lotShape (productLots (afterPrimary now ps st l db)) = map lotShape (productLots db)"
  by (simp add: afterPrimary_def productLot_decrement_def lotShape_def comp_def)

lemma usageTransaction_alt:
  "usageTransaction now ps st usedLot db =
     (case relatedLoop (u_id (usageRow now ps st usedLot db)) (relatedOf ps)
             (afterPrimary now ps st usedLot db) of
        Inl e \<Rightarrow> Inl e
      | Inr db3 \<Rightarrow>
         (case product_update (rp_productId ps)
                 (\<lambda>p. p\<lparr>p_usageCount := p_usageCount p + 1, p_lastUsed := Some now\<rparr>) db3 of
            Inl e \<Rightarrow> Inl e
          | Inr db4 \<Rightarrow>
              Inr (usageRow now ps st usedLot db,
                   activity_create (rp_recordedBy ps) ''INVENTORY'' ''RECORD_USAGE''
                     (RecordUsageMeta (u_id (usageRow now ps st usedLot db)) (rp_productId ps)
                        (rp_serviceTypeId ps) (rp_usageAmount ps)) db4)))"
  unfolding usageTransaction_def relatedOf_def afterPrimary_def usageRow_def Let_def
  by (rule refl)

lemma usageTransaction_fails:
  assumes "\<exists>r\<in>set (relatedOf ps). products db (rel_productId r) = None \<or> inUseLots db (rel_productId r) = []"
  shows "\<exists>e. usageTransaction now ps st usedLot db = Inl e"
proof -
  have "inUseLots (afterPrimary now ps st usedLot db) q = [] \<longleftrightarrow> inUseLots db q = []" for q
    by (rule shape_nil_iff) (rule inUseLots_shape_cong, rule afterPrimary_shape)
  with assms have "\<exists>r\<in>set (relatedOf ps).
      products (afterPrimary now ps st usedLot db) (rel_productId r) = None \<or>
      inUseLots (afterPrimary now ps st usedLot db) (rel_productId r) = []"
    by (simp add: afterPrimary_frame)
  from relatedLoop_fails [OF this] obtain e where
    "relatedLoop (u_id (usageRow now ps st usedLot db)) (relatedOf ps)
       (afterPrimary now ps st usedLot db) = Inl e" ..
  then show ?thesis by (simp add: usageTransaction_alt)
qed

lemma recordProductUsage_rollback:
  "recordProductUsage now ps db = (Inl e, db') \<Longrightarrow> db' = db"
  unfolding recordProductUsage_def
  by (simp split: option.splits list.splits if_splits sum.splits prod.splits add: transaction_def)

lemma recordProductUsage_success:
  assumes "recordProductUsage now ps db = (Inr u, db')"
  shows "\<exists>p usedLot others st usr.
           products db (rp_productId ps) = Some p \<and>
           inUseLots db (rp_productId ps) = usedLot # others \<and>
           serviceTypes db (rp_serviceTypeId ps) = Some st \<and>
           users db (rp_recordedBy ps) = Some usr \<and>
           usageTransaction now ps st usedLot db = Inr (u, db')"
  using assms unfolding recordProductUsage_def
  by (simp split: option.splits list.splits if_splits sum.splits prod.splits add: transaction_def)

lemma relatedStep_related:
  "\<exists>row. relatedProductUsages (relatedStep u r l db) = relatedProductUsages db @ [row] \<and>
         ru_usageId row = u \<and> ru_productId row = rel_productId r \<and>
         ru_amount row = rel_amount r \<and> ru_usedLotId row = Some (lot_id l)"
  by (simp add: relatedStep_def productLot_decrement_def relatedProductUsage_create_def)

lemma relatedLoop_related:
  "relatedLoop u rs db = Inr db' \<Longrightarrow>
     \<exists>new. relatedProductUsages db' = relatedProductUsages db @ new \<and>
           map ru_productId new = map rel_productId rs \<and>
           map ru_amount new = map rel_amount rs \<and>
           list_all (\<lambda>row. ru_usageId row = u) new"
proof (induction rs arbitrary: db)
  case Nil
  then show ?case by simp
next
  case (Cons r rs)
  from Cons.prems obtain l where rest: "relatedLoop u rs (relatedStep u r l db) = Inr db'"
    by (auto split: option.splits list.splits)
  from relatedStep_related [of u r l db] obtain row where row:
    "relatedProductUsages (relatedStep u r l db) = relatedProductUsages db @ [row]"
    "ru_usageId row = u" "ru_productId row = rel_productId r" "ru_amount row = rel_amount r"
    by blast
  from Cons.IH [OF rest] obtain new where new:
    "relatedProductUsages db' = relatedProductUsages (relatedStep u r l db) @ new"
    "map ru_productId new = map rel_productId rs"
    "map ru_amount new = map rel_amount rs"
    "list_all (\<lambda>row. ru_usageId row = u) new"
    by blast
  show ?case
    by (rule exI [of _ "row # new"]) (simp add: row new)
qed

lemma usageTransaction_success:
  assumes "usageTransaction now ps st usedLot db = Inr (u, db')"
  shows "\<exists>db3 p. relatedLoop (u_id u) (relatedOf ps) (afterPrimary now ps st usedLot db) = Inr db3 \<and>
           products db3 (rp_productId ps) = Some p \<and>
           u = usageRow now ps st usedLot db \<and>
           db' = activity_create (rp_recordedBy ps) ''INVENTORY'' ''RECORD_USAGE''
                   (RecordUsageMeta (u_id u) (rp_productId ps) (rp_serviceTypeId ps)
                      (rp_usageAmount ps))
                   (db3\<lparr>products := (products db3)(rp_productId ps \<mapsto>
                       p\<lparr>p_usageCount := p_usageCount p + 1, p_lastUsed := Some now\<rparr>)\<rparr>)"
  using assms unfolding usageTransaction_alt product_update_def
  by (auto split: sum.splits option.splits)

lemma recordProductUsage_lots:
  assumes "recordProductUsage now ps db = (Inr u, db')"
  shows "\<exists>F. productLots db' = map F (productLots db) \<and>
             (\<forall>l. lotShape (F l) = lotShape l) \<and>
             (\<forall>l. F l \<noteq> l \<longrightarrow>
                (\<exists>q\<in>set (rp_productId ps # map rel_productId (relatedOf ps)).
                   \<exists>x xs. inUseLots db q = x # xs \<and> lot_id l = lot_id x))"
proof -
  from recordProductUsage_success [OF assms] obtain usedLot others st where
    used: "inUseLots db (rp_productId ps) = usedLot # others" and
    tx: "usageTransaction now ps st usedLot db = Inr (u, db')"
    by blast
  let ?db2 = "afterPrimary now ps st usedLot db"
  from usageTransaction_success [OF tx] obtain db3 p where
    loop: "relatedLoop (u_id u) (relatedOf ps) ?db2 = Inr db3" and
    db': "db' = activity_create (rp_recordedBy ps) ''INVENTORY'' ''RECORD_USAGE''
                   (RecordUsageMeta (u_id u) (rp_productId ps) (rp_serviceTypeId ps)
                      (rp_usageAmount ps))
                   (db3\<lparr>products := (products db3)(rp_productId ps \<mapsto>
                       p\<lparr>p_usageCount := p_usageCount p + 1, p_lastUsed := Some now\<rparr>)\<rparr>)"
    by blast
  have lots3: "productLots db' = productLots db3"
    by (simp add: db' activity_create_def)
  define g where "g = (\<lambda>l::productLot. if lot_id l = lot_id usedLot
      then l\<lparr>lot_currentAmount := map_option (\<lambda>c. c - rp_usageAmount ps) (lot_currentAmount l)\<rparr>
      else l)"
  have g_lots: "productLots ?db2 = map g (productLots db)"
    by (simp add: afterPrimary_def productLot_decrement_def g_def)
  have g_shape: "lotShape (g l) = lotShape l" for l
    by (simp add: g_def lotShape_def)
  have g_id: "g l \<noteq> l \<Longrightarrow> lot_id l = lot_id usedLot" for l
    by (simp add: g_def split: if_splits)
  from relatedLoop_lots [OF loop] obtain F where F:
    "productLots db3 = map F (productLots ?db2) \<and>
     (\<forall>l. lotShape (F l) = lotShape l) \<and>
     (\<forall>l. F l \<noteq> l \<longrightarrow>
        (\<exists>r\<in>set (relatedOf ps). \<exists>y ys. inUseLots ?db2 (rel_productId r) = y # ys \<and>
                               lot_id l = lot_id y))" ..
  have lots: "productLots db' = map (\<lambda>l. F (g l)) (productLots db)"
    using F by (simp add: lots3 g_lots comp_def)
  have shape: "lotShape (F (g l)) = lotShape l" for l
    using F by (simp add: g_shape)
  have ids: "\<exists>q\<in>set (rp_productId ps # map rel_productId (relatedOf ps)).
                \<exists>y ys. inUseLots db q = y # ys \<and> lot_id l = lot_id y"
    if neq: "F (g l) \<noteq> l" for l
  proof (cases "g l = l")
    case False
    then have "lot_id l = lot_id usedLot" by (rule g_id)
    with used have "inUseLots db (rp_productId ps) = usedLot # others \<and> lot_id l = lot_id usedLot"
      by simp
    then show ?thesis by (intro bexI [of _ "rp_productId ps"] exI) simp_all
  next
    case True
    with neq have "F l \<noteq> l" by simp
    with F obtain r y ys where r: "r \<in> set (relatedOf ps)"
      and y: "inUseLots ?db2 (rel_productId r) = y # ys"
      and ly: "lot_id l = lot_id y"
      by blast
    from shape_head [OF inUseLots_shape_cong [OF afterPrimary_shape] y]
    obtain z zs where "inUseLots db (rel_productId r) = z # zs" "lot_id z = lot_id y"
      by blast
    with ly have "inUseLots db (rel_productId r) = z # zs \<and> lot_id l = lot_id z" by simp
    with r show ?thesis by (intro bexI [of _ "rel_productId r"] exI) simp_all
  qed
  show ?thesis
    by (intro exI [of _ "\<lambda>l. F (g l)"] conjI allI impI lots shape ids)
qed

lemma shape_only_amount:
  "lotShape a = lotShape b \<Longrightarrow> a = b\<lparr>lot_currentAmount := lot_currentAmount a\<rparr>"
  by (cases a, cases b) (simp add: lotShape_def)

lemma drawnLotIds_head:
  assumes q: "q \<in> set (rp_productId ps # map rel_productId (relatedOf ps))"
    and x: "inUseLots db q = x # xs"
  shows "lot_id x \<in> set (drawnLotIds db ps)"
proof -
  from x have "x \<in> set (take 1 (inUseLots db q))" by simp
  with q have "x \<in> set (concat (map (\<lambda>q. take 1 (inUseLots db q))
                    (rp_productId ps # map rel_productId (relatedOf ps))))"
    unfolding set_concat set_map by blast
  then show ?thesis
    unfolding drawnLotIds_def set_map by (rule imageI)
qed

lemma recordProductUsage_fields:
  assumes ok: "recordProductUsage now ps db = (Inr u, db')"
  shows "(\<exists>p. products db (rp_productId ps) = Some p \<and>
            products db' = (products db)(rp_productId ps \<mapsto>
              p\<lparr>p_usageCount := p_usageCount p + 1, p_lastUsed := Some now\<rparr>)) \<and>
         stores db' = stores db \<and> users db' = users db \<and>
         serviceTypes db' = serviceTypes db \<and>
         monthlyServiceStats db' = monthlyServiceStats db \<and>
         usages db' = usages db @ [u] \<and>
         (\<exists>new. relatedProductUsages db' = relatedProductUsages db @ new \<and>
                map ru_productId new = map rel_productId (relatedOf ps)) \<and>
         (\<exists>a. activities db' = activities db @ [a])"
proof -
  from recordProductUsage_success [OF ok] obtain usedLot st p0 where
    p0: "products db (rp_productId ps) = Some p0" and
    tx: "usageTransaction now ps st usedLot db = Inr (u, db')"
    by blast
  let ?db2 = "afterPrimary now ps st usedLot db"
  from usageTransaction_success [OF tx] obtain db3 p where
    loop: "relatedLoop (u_id u) (relatedOf ps) ?db2 = Inr db3" and
    p: "products db3 (rp_productId ps) = Some p" and
    u: "u = usageRow now ps st usedLot db" and
    db': "db' = activity_create (rp_recordedBy ps) ''INVENTORY'' ''RECORD_USAGE''
                   (RecordUsageMeta (u_id u) (rp_productId ps) (rp_serviceTypeId ps)
                      (rp_usageAmount ps))
                   (db3\<lparr>products := (products db3)(rp_productId ps \<mapsto>
                       p\<lparr>p_usageCount := p_usageCount p + 1, p_lastUsed := Some now\<rparr>)\<rparr>)"
    by blast
  note fr = relatedLoop_frame [OF loop]
  from relatedLoop_related [OF loop] obtain new where new:
    "relatedProductUsages db3 = relatedProductUsages ?db2 @ new"
    "map ru_productId new = map rel_productId (relatedOf ps)"
    by blast
  have products3: "products db3 = products db"
    using fr by (simp add: afterPrimary_frame)
  with p p0 have pp: "p = p0" by simp
  have "products db' = (products db)(rp_productId ps \<mapsto>
          p0\<lparr>p_usageCount := p_usageCount p0 + 1, p_lastUsed := Some now\<rparr>)"
    by (simp add: db' activity_create_def products3 pp)
  with p0 have 1: "\<exists>p. products db (rp_productId ps) = Some p \<and>
            products db' = (products db)(rp_productId ps \<mapsto>
              p\<lparr>p_usageCount := p_usageCount p + 1, p_lastUsed := Some now\<rparr>)"
    by blast
  have 2: "stores db' = stores db" "users db' = users db" "serviceTypes db' = serviceTypes db"
    "monthlyServiceStats db' = monthlyServiceStats db"
    using fr by (simp_all add: db' activity_create_def afterPrimary_frame)
  have 3: "usages db' = usages db @ [u]"
    using fr by (simp add: db' activity_create_def afterPrimary_frame u)
  have "relatedProductUsages db' = relatedProductUsages db @ new"
    by (simp add: db' activity_create_def new afterPrimary_frame)
  with new have 4: "\<exists>new. relatedProductUsages db' = relatedProductUsages db @ new \<and>
                map ru_productId new = map rel_productId (relatedOf ps)"
    by blast
  have 5: "\<exists>a. activities db' = activities db @ [a]"
    using fr by (simp add: db' activity_create_def afterPrimary_frame)
  from 1 2 3 4 5 show ?thesis by (intro conjI)
qed

lemma inUseLots_set:
  "set (inUseLots db pid) = {l \<in> set (productLots db). lot_productId l = pid \<and> lot_isInUse l}"
  by (simp add: inUseLots_def)

lemma inUseLots_head_least:
  assumes "inUseLots db pid = x # xs" and "l \<in> set (inUseLots db pid)"
  shows "startedKey x \<le> startedKey l"
proof -
  have "sorted (map startedKey (inUseLots db pid))"
    unfolding inUseLots_def by (rule sorted_sort_key)
  with assms show ?thesis by auto
qed

lemma fifo_out_of_stock:
  assumes "products db (rp_productId ps) = Some p"
    and "\<not> (\<exists>l\<in>set (productLots db). lot_productId l = rp_productId ps \<and> lot_isInUse l)"
  shows "recordProductUsage now ps db = (Inl (NoAvailableLots (p_productName p)), db)"
proof -
  from assms(2) have "set (inUseLots db (rp_productId ps)) = {}"
    unfolding inUseLots_set by blast
  then have "inUseLots db (rp_productId ps) = []" by simp
  with assms(1) show ?thesis by (simp add: recordProductUsage_def)
qed

lemma distinct_same_id:
  "distinct (map lot_id xs) \<Longrightarrow> a \<in> set xs \<Longrightarrow> b \<in> set xs \<Longrightarrow> lot_id a = lot_id b \<Longrightarrow> a = b"
  by (simp add: distinct_map inj_on_def)

lemma headLotId_shape:
  assumes "map lotShape (productLots db') = map lotShape (productLots db)"
  shows "headLotId db' q = headLotId db q"
proof -
  from inUseLots_shape_cong [OF assms, of q]
  have "map lotShape (inUseLots db' q) = map lotShape (inUseLots db q)" .
  then show ?thesis
    unfolding headLotId_def
    by (cases "inUseLots db' q"; cases "inUseLots db q") (simp_all add: lotShape_def)
qed

lemma drawLot_id [simp]: "lot_id (drawLot a l) = lot_id l"
  by (simp add: drawLot_def)

lemma drawLot_drawLot: "drawLot b (drawLot a l) = drawLot (a + b) l"
  by (simp add: drawLot_def option.map_comp comp_def algebra_simps)

lemma drawLot_zero: "drawLot 0 l = l"
  by (simp add: drawLot_def option.map_ident)

lemma relatedLoop_amounts:
  "relatedLoop u rs db = Inr db' \<Longrightarrow>
     productLots db' =
       map (\<lambda>l. drawLot (sum_list (map rel_amount
                   (filter (\<lambda>r. headLotId db (rel_productId r) = Some (lot_id l)) rs))) l)
         (productLots db)"
proof (induction rs arbitrary: db)
  case Nil
  then show ?case by (simp add: drawLot_zero)
next
  case (Cons r rs)
  from Cons.prems obtain x xs where x: "inUseLots db (rel_productId r) = x # xs"
    and rest: "relatedLoop u rs (relatedStep u r x db) = Inr db'"
    by (auto split: option.splits list.splits)
  let ?db1 = "relatedStep u r x db"
  have head: "headLotId ?db1 q = headLotId db q" for q
    by (rule headLotId_shape) (rule relatedStep_shape)
  have hr: "headLotId db (rel_productId r) = Some (lot_id x)"
    by (simp add: headLotId_def x)
  have lots1: "productLots ?db1 =
      map (\<lambda>l. if lot_id l = lot_id x then drawLot (rel_amount r) l else l) (productLots db)"
    by (simp add: relatedStep_def productLot_decrement_def relatedProductUsage_create_def
        drawLot_def)
  from Cons.IH [OF rest] have "productLots db' =
       map (\<lambda>l. drawLot (sum_list (map rel_amount
                   (filter (\<lambda>r. headLotId db (rel_productId r) = Some (lot_id l)) rs))) l)
         (productLots ?db1)"
    by (simp only: head)
  then have "productLots db' =
       map (\<lambda>l. drawLot (sum_list (map rel_amount
                   (filter (\<lambda>r. headLotId db (rel_productId r) = Some (lot_id l)) rs)))
                 (if lot_id l = lot_id x then drawLot (rel_amount r) l else l))
         (productLots db)"
    by (simp add: lots1 comp_def if_distrib [of lot_id] cong: if_cong)
  also have "\<dots> =
       map (\<lambda>l. drawLot (sum_list (map rel_amount
                   (filter (\<lambda>r. headLotId db (rel_productId r) = Some (lot_id l)) (r # rs)))) l)
         (productLots db)"
  proof (rule map_cong [OF refl])
    fix l
    show "drawLot (sum_list (map rel_amount
                   (filter (\<lambda>r. headLotId db (rel_productId r) = Some (lot_id l)) rs)))
                 (if lot_id l = lot_id x then drawLot (rel_amount r) l else l) =
          drawLot (sum_list (map rel_amount
                   (filter (\<lambda>r. headLotId db (rel_productId r) = Some (lot_id l)) (r # rs)))) l"
      by (cases "lot_id l = lot_id x") (simp_all add: hr drawLot_drawLot)
  qed
  finally show ?case .
qed

lemma recordProductUsage_amounts:
  assumes ok: "recordProductUsage now ps db = (Inr u, db')"
  shows "productLots db' = map (\<lambda>l. drawLot (drawnFrom db ps (lot_id l)) l) (productLots db)"
proof -
  from recordProductUsage_success [OF ok] obtain usedLot others st where
    used: "inUseLots db (rp_productId ps) = usedLot # others" and
    tx: "usageTransaction now ps st usedLot db = Inr (u, db')"
    by blast
  let ?db2 = "afterPrimary now ps st usedLot db"
  from usageTransaction_success [OF tx] obtain db3 p where
    loop: "relatedLoop (u_id u) (relatedOf ps) ?db2 = Inr db3" and
    db': "db' = activity_create (rp_recordedBy ps) ''INVENTORY'' ''RECORD_USAGE''
                   (RecordUsageMeta (u_id u) (rp_productId ps) (rp_serviceTypeId ps)
                      (rp_usageAmount ps))
                   (db3\<lparr>products := (products db3)(rp_productId ps \<mapsto>
                       p\<lparr>p_usageCount := p_usageCount p + 1, p_lastUsed := Some now\<rparr>)\<rparr>)"
    by blast
  have lots3: "productLots db' = productLots db3"
    by (simp add: db' activity_create_def)
  have head: "headLotId ?db2 q = headLotId db q" for q
    by (rule headLotId_shape) (rule afterPrimary_shape)
  have hp: "headLotId db (rp_productId ps) = Some (lot_id usedLot)"
    by (simp add: headLotId_def used)
  have lots2: "productLots ?db2 =
      map (\<lambda>l. if lot_id l = lot_id usedLot then drawLot (rp_usageAmount ps) l else l)
        (productLots db)"
    by (simp add: afterPrimary_def productLot_decrement_def drawLot_def)
  from relatedLoop_amounts [OF loop] have "productLots db3 =
       map (\<lambda>l. drawLot (sum_list (map rel_amount
                   (filter (\<lambda>r. headLotId db (rel_productId r) = Some (lot_id l)) (relatedOf ps)))) l)
         (productLots ?db2)"
    by (simp only: head)
  then have "productLots db' =
       map (\<lambda>l. drawLot (sum_list (map rel_amount
                   (filter (\<lambda>r. headLotId db (rel_productId r) = Some (lot_id l)) (relatedOf ps))))
                 (if lot_id l = lot_id usedLot then drawLot (rp_usageAmount ps) l else l))
         (productLots db)"
    by (simp add: lots3 lots2 comp_def if_distrib [of lot_id] cong: if_cong)
  also have "\<dots> = map (\<lambda>l. drawLot (drawnFrom db ps (lot_id l)) l) (productLots db)"
  proof (rule map_cong [OF refl])
    fix l
    show "drawLot (sum_list (map rel_amount
                   (filter (\<lambda>r. headLotId db (rel_productId r) = Some (lot_id l)) (relatedOf ps))))
                 (if lot_id l = lot_id usedLot then drawLot (rp_usageAmount ps) l else l) =
          drawLot (drawnFrom db ps (lot_id l)) l"
      by (cases "lot_id l = lot_id usedLot") (simp_all add: hp drawnFrom_def drawLot_drawLot)
  qed
  finally show ?thesis .
qed


lemma headLotId_own:
  assumes dist: "distinct (map lot_id (productLots db))"
    and a: "a \<in> set (productLots db)"
    and h: "headLotId db q = Some (lot_id a)"
  shows "lot_productId a = q"
proof -
  from h obtain x xs where x: "inUseLots db q = x # xs" and ax: "lot_id a = lot_id x"
    by (auto simp: headLotId_def split: list.splits)
  from x have "x \<in> set (inUseLots db q)" by simp
  then have xm: "x \<in> set (productLots db)" and xq: "lot_productId x = q"
    unfolding inUseLots_set by simp_all
  from distinct_same_id [OF dist a xm ax] xq show ?thesis by simp
qed

lemma fifo_selected:
  assumes ok: "recordProductUsage now ps db = (Inr u, db')"
  shows "\<exists>l\<in>set (productLots db).
           u_usedLotId u = Some (lot_id l) \<and> lot_productId l = rp_productId ps \<and> lot_isInUse l \<and>
           (\<forall>l'\<in>set (productLots db).
               lot_productId l' = rp_productId ps \<and> lot_isInUse l' \<longrightarrow> startedKey l \<le> startedKey l') \<and>
           u_productId u = rp_productId ps \<and> u_usageAmount u = rp_usageAmount ps \<and>
           usages db' = usages db @ [u] \<and>
           (distinct (map lot_id (productLots db)) \<longrightarrow>
              list_all2
                (\<lambda>a a'. (lot_id a = lot_id l \<longrightarrow>
                            a' = drawLot (rp_usageAmount ps +
                                   sum_list (map rel_amount
                                     (filter (\<lambda>r. rel_productId r = rp_productId ps) (relatedOf ps)))) a) \<and>
                         (lot_productId a = rp_productId ps \<and> lot_id a \<noteq> lot_id l \<longrightarrow> a' = a))
                (productLots db) (productLots db'))"
proof -
  from recordProductUsage_success [OF ok] obtain usedLot others st where
    used: "inUseLots db (rp_productId ps) = usedLot # others" and
    tx: "usageTransaction now ps st usedLot db = Inr (u, db')"
    by blast
  from usageTransaction_success [OF tx] have "u = usageRow now ps st usedLot db" by blast
  then have id: "u_usedLotId u = Some (lot_id usedLot)"
    and up: "u_productId u = rp_productId ps" and ua: "u_usageAmount u = rp_usageAmount ps"
    by (simp_all add: usageRow_def)
  from recordProductUsage_fields [OF ok] have stored: "usages db' = usages db @ [u]"
    by simp
  from used have "usedLot \<in> set (inUseLots db (rp_productId ps))" by simp
  then have mem: "usedLot \<in> set (productLots db)"
    and own: "lot_productId usedLot = rp_productId ps" and inuse: "lot_isInUse usedLot"
    unfolding inUseLots_set by simp_all
  have hp: "headLotId db (rp_productId ps) = Some (lot_id usedLot)"
    by (simp add: headLotId_def used)
  have least: "startedKey usedLot \<le> startedKey l'"
    if "l' \<in> set (productLots db)" "lot_productId l' = rp_productId ps \<and> lot_isInUse l'" for l'
  proof -
    from that have "l' \<in> set (inUseLots db (rp_productId ps))"
      unfolding inUseLots_set by simp
    with used show ?thesis by (rule inUseLots_head_least)
  qed
  have lots: "list_all2
                (\<lambda>a a'. (lot_id a = lot_id usedLot \<longrightarrow>
                            a' = drawLot (rp_usageAmount ps +
                                   sum_list (map rel_amount
                                     (filter (\<lambda>r. rel_productId r = rp_productId ps) (relatedOf ps)))) a) \<and>
                         (lot_productId a = rp_productId ps \<and> lot_id a \<noteq> lot_id usedLot \<longrightarrow> a' = a))
                (productLots db) (productLots db')"
    if dist: "distinct (map lot_id (productLots db))"
  proof -
    have sel: "drawnFrom db ps (lot_id a) =
        rp_usageAmount ps +
        sum_list (map rel_amount (filter (\<lambda>r. rel_productId r = rp_productId ps) (relatedOf ps)))"
      if a: "a \<in> set (productLots db)" and ia: "lot_id a = lot_id usedLot" for a
    proof -
      from distinct_same_id [OF dist a mem ia] have au: "a = usedLot" .
      have "(headLotId db q = Some (lot_id a)) = (q = rp_productId ps)" for q
      proof
        assume "headLotId db q = Some (lot_id a)"
        from headLotId_own [OF dist a this] au own show "q = rp_productId ps" by simp
      next
        assume "q = rp_productId ps"
        with hp ia show "headLotId db q = Some (lot_id a)" by simp
      qed
      then show ?thesis by (simp add: drawnFrom_def)
    qed
    have other: "drawnFrom db ps (lot_id a) = 0"
      if a: "a \<in> set (productLots db)" and pa: "lot_productId a = rp_productId ps"
        and na: "lot_id a \<noteq> lot_id usedLot" for a
    proof -
      have "headLotId db q \<noteq> Some (lot_id a)" for q
      proof
        assume h: "headLotId db q = Some (lot_id a)"
        from headLotId_own [OF dist a h] pa have "q = rp_productId ps" by simp
        with h hp na show False by simp
      qed
      then show ?thesis by (simp add: drawnFrom_def)
    qed
    from recordProductUsage_amounts [OF ok]
    have "productLots db' = map (\<lambda>l. drawLot (drawnFrom db ps (lot_id l)) l) (productLots db)" .
    then show ?thesis
      by (simp add: list_all2_map2 list_all2_same sel [OF mem refl] other drawLot_zero)
  qed
  from mem id own inuse least up ua stored lots show ?thesis
    by (intro bexI [of _ usedLot] conjI ballI impI)
qed

lemma recordProductUsage_stats_unchanged:
  "monthlyServiceStats (snd (recordProductUsage now ps db)) = monthlyServiceStats db"
proof (cases "recordProductUsage now ps db")
  case (Pair a db')
  show ?thesis
  proof (cases a)
    case (Inl e)
    with Pair have "db' = db" by (simp add: recordProductUsage_rollback)
    with Pair show ?thesis by simp
  next
    case (Inr u)
    with Pair have "recordProductUsage now ps db = (Inr u, db')" by simp
    from recordProductUsage_fields [OF this] Pair show ?thesis by simp
  qed
qed

lemma updateMonthlyStats_row:
  "\<exists>row. monthlyServiceStats (updateMonthlyStats s a d db) (s, getFullYear d, int (getMonth d) + 1) = Some row \<and>
     ms_usageCount row =
       (case monthlyServiceStats db (s, getFullYear d, int (getMonth d) + 1) of
          None \<Rightarrow> 1 | Some old \<Rightarrow> ms_usageCount old + 1) \<and>
     ms_totalUsage row =
       (case monthlyServiceStats db (s, getFullYear d, int (getMonth d) + 1) of
          None \<Rightarrow> a | Some old \<Rightarrow> ms_totalUsage old + a)"
  by (simp add: updateMonthlyStats_def Let_def split: option.split)

section \<open>Creating lots\<close>

lemma createLots_frame:
  "products (createLots k pid db) = products db \<and> stores (createLots k pid db) = stores db"
  by (induction k arbitrary: db) (simp_all add: productLot_create_def Let_def)

lemma createLots_new:
  "\<exists>new. productLots (createLots k pid db) = productLots db @ new \<and> length new = k \<and>
         list_all (isUnusedLotOf pid) new"
proof (induction k arbitrary: db)
  case 0
  then show ?case by simp
next
  case (Suc k)
  let ?lot = "\<lparr>lot_id = nextId db, lot_productId = pid, lot_isInUse = False,
               lot_currentAmount = None, lot_startedAt = None\<rparr>"
  let ?db1 = "snd (productLot_create pid False None None db)"
  have lots1: "productLots ?db1 = productLots db @ [?lot]"
    by (simp add: productLot_create_def Let_def)
  from Suc.IH [of ?db1] obtain new where new:
    "productLots (createLots k pid ?db1) = productLots ?db1 @ new \<and> length new = k \<and>
     list_all (isUnusedLotOf pid) new" ..
  then have "productLots (createLots (Suc k) pid db) = productLots db @ (?lot # new) \<and>
      length (?lot # new) = Suc k \<and> list_all (isUnusedLotOf pid) (?lot # new)"
    by (simp add: lots1 isUnusedLotOf_def)
  then show ?case by (rule exI)
qed

section \<open>Rounding\<close>

lemma floor_rat_numeral_div [simp]:
  "\<lfloor>(numeral a :: rat) / numeral b\<rfloor> = numeral a div numeral b"
  by (metis floor_divide_of_int_eq of_int_numeral)

lemma floor_rat_one_div [simp]:
  "\<lfloor>(1 :: rat) / numeral b\<rfloor> = 1 div numeral b"
  by (metis floor_divide_of_int_eq of_int_numeral of_int_1)

lemma floor_rat_minus_numeral_div [simp]:
  "\<lfloor>- ((numeral a :: rat) / numeral b)\<rfloor> = - numeral a div numeral b"
  by (metis divide_minus_left floor_divide_of_int_eq of_int_neg_numeral of_int_numeral)

lemmas double_defs = toDouble_def ulpExp_def roundHalfEven_def ilog2_def pow2_def
  halvings.simps doublings.simps infinityTimes_def

text \<open>The binary exponent is the right one, and rounding is to the nearest double.\<close>

lemma pow2_pos: "0 < pow2 n"
  by (simp add: pow2_def)

lemma pow2_Suc: "pow2 (n + 1) = 2 * pow2 n"
proof (cases "0 \<le> n")
  case True
  then show ?thesis by (simp add: pow2_def nat_add_distrib)
next
  case False
  then have "nat (- n) = Suc (nat (- (n + 1)))" by simp
  with False show ?thesis by (cases "n = - 1") (simp_all add: pow2_def)
qed

lemma halvings_bounds: "1 \<le> x \<Longrightarrow> 2 ^ halvings x \<le> x \<and> x < 2 * 2 ^ halvings x"
proof (induction x rule: halvings.induct)
  case (1 x)
  show ?case
  proof (cases "2 \<le> x")
    case True
    with 1 have "2 ^ halvings (x / 2) \<le> x / 2 \<and> x / 2 < 2 * 2 ^ halvings (x / 2)" by simp
    moreover from True have "halvings x = Suc (halvings (x / 2))"
      by (subst halvings.simps) simp
    ultimately show ?thesis by simp
  next
    case False
    then have "halvings x = 0" by (subst halvings.simps) simp
    with False 1 show ?thesis by simp
  qed
qed

lemma doublings_bounds:
  "0 < x \<Longrightarrow> x < 1 \<Longrightarrow> 1 \<le> 2 ^ doublings x * x \<and> 2 ^ doublings x * x < 2"
proof (induction x rule: doublings.induct)
  case (1 x)
  have d: "doublings x = Suc (doublings (2 * x))"
    using 1(2,3) by (subst doublings.simps) simp
  show ?case
  proof (cases "2 * x < 1")
    case True
    with 1 have "1 \<le> 2 ^ doublings (2 * x) * (2 * x) \<and> 2 ^ doublings (2 * x) * (2 * x) < 2"
      by simp
    then show ?thesis by (simp add: d mult.assoc)
  next
    case False
    then have "doublings (2 * x) = 0" by (subst doublings.simps) simp
    with False 1 show ?thesis by (simp add: d)
  qed
qed

lemma ilog2_bounds:
  assumes "0 < x"
  shows "pow2 (ilog2 x) \<le> x \<and> x < 2 * pow2 (ilog2 x)"
proof (cases "1 \<le> x")
  case True
  with halvings_bounds [of x] show ?thesis by (simp add: ilog2_def pow2_def)
next
  case False
  with assms doublings_bounds [of x]
  have b: "1 \<le> 2 ^ doublings x * x \<and> 2 ^ doublings x * x < 2" by simp
  have p: "pow2 (- int (doublings x)) = 1 / 2 ^ doublings x"
    by (simp add: pow2_def)
  from b have "1 / 2 ^ doublings x \<le> x \<and> x < 2 * (1 / 2 ^ doublings x)"
    by (simp add: field_simps)
  with False show ?thesis by (simp add: ilog2_def p)
qed

lemma roundHalfEven_close: "\<bar>of_int (roundHalfEven y) - y\<bar> \<le> 1 / 2"
proof -
  define f :: rat where "f = of_int \<lfloor>y\<rfloor>"
  have "f \<le> y" "y < f + 1" unfolding f_def by linarith+
  then show ?thesis
    unfolding roundHalfEven_def f_def [symmetric]
    by (auto simp: f_def [symmetric] intro!: abs_leI)
qed

lemma toDouble_close:
  assumes "toDouble x = Finite y"
  shows "\<bar>y - x\<bar> \<le> pow2 (ulpExp x) / 2"
proof (cases "x = 0")
  case True
  with assms have "y = 0" by (simp add: toDouble_def)
  with True pow2_pos [of "ulpExp x"] show ?thesis by simp
next
  case False
  define q where "q = pow2 (ulpExp x)"
  define r :: rat where "r = of_int (roundHalfEven (x / q))"
  have q: "0 < q" unfolding q_def by (rule pow2_pos)
  from assms False have y: "y = r * q"
    unfolding toDouble_def q_def [symmetric] r_def [symmetric]
    by (simp split: if_splits)
  have "\<bar>r - x / q\<bar> \<le> 1 / 2" unfolding r_def by (rule roundHalfEven_close)
  with q have "\<bar>r - x / q\<bar> * q \<le> 1 / 2 * q"
    by (intro mult_right_mono) simp_all
  moreover have "y - x = (r - x / q) * q"
    using q by (simp add: y left_diff_distrib)
  then have "\<bar>y - x\<bar> = \<bar>r - x / q\<bar> * \<bar>q\<bar>"
    by (simp only: abs_mult)
  with q have "\<bar>y - x\<bar> = \<bar>r - x / q\<bar> * q" by simp
  ultimately show ?thesis by (simp add: q_def)
qed

lemma round_hundredth_any:
  fixes x :: rat
  shows "\<bar>of_int \<lfloor>x * 100 + 1 / 2\<rfloor> / 100 - x\<bar> \<le> 1 / 200"
proof -
  define z :: rat where "z = of_int \<lfloor>x * 100 + 1 / 2\<rfloor>"
  have "z \<le> x * 100 + 1 / 2" "x * 100 + 1 / 2 < z + 1"
    unfolding z_def by linarith+
  then have "\<bar>z / 100 - x\<bar> \<le> 1 / 200"
    by (intro abs_leI) linarith+
  then show ?thesis by (simp only: z_def)
qed

lemma toFixed2_hundredths:
  assumes "\<bar>x\<bar> < 10 ^ 21"
  shows "\<exists>k::int. toFixed2 (Finite x) = toDouble (of_int k / 100) \<and> \<bar>of_int k / 100 - x\<bar> \<le> 1 / 200"
proof (cases "x < 0")
  case True
  define k where "k = - \<lfloor>- x * 100 + 1 / 2\<rfloor>"
  have k: "(of_int k :: rat) / 100 = - (of_int \<lfloor>- x * 100 + 1 / 2\<rfloor> / 100)"
    by (simp add: k_def)
  from True assms have 1: "toFixed2 (Finite x) = toDouble (of_int k / 100)"
    by (simp only: toFixed2.simps k) simp
  have "\<bar>of_int k / 100 - x\<bar> = \<bar>of_int \<lfloor>- x * 100 + 1 / 2\<rfloor> / 100 - (- x)\<bar>"
    unfolding k by (intro abs_eq_iff [THEN iffD2]) (rule disjI2, linarith)
  also have "\<dots> \<le> 1 / 200" by (rule round_hundredth_any)
  finally have "\<bar>of_int k / 100 - x\<bar> \<le> 1 / 200" .
  with 1 show ?thesis by blast
next
  case False
  with assms have "toFixed2 (Finite x) = toDouble (of_int \<lfloor>x * 100 + 1 / 2\<rfloor> / 100)"
    by simp
  with round_hundredth_any [of x] show ?thesis by blast
qed

lemma Math_round_close:
  "\<exists>k::int. Math_round (Finite m) = Finite (of_int k) \<and> \<bar>of_int k - m\<bar> \<le> 1 / 2"
proof -
  define z :: rat where "z = of_int \<lfloor>m + 1 / 2\<rfloor>"
  have "z \<le> m + 1 / 2" "m + 1 / 2 < z + 1"
    unfolding z_def by linarith+
  then have "\<bar>z - m\<bar> \<le> 1 / 2"
    by (intro abs_leI) linarith+
  then have "Math_round (Finite m) = Finite (of_int \<lfloor>m + 1 / 2\<rfloor>) \<and>
      \<bar>of_int \<lfloor>m + 1 / 2\<rfloor> - m\<bar> \<le> 1 / 2"
    by (simp add: z_def)
  then show ?thesis ..
qed

lemma calculate_applied:
  "calculateAdjustedUsageAmount st b len = toFixed2 (js_times b (js_div100 (appliedRate st len)))"
  by (cases len; cases "st_designUsageRate st")
     (simp_all add: calculateAdjustedUsageAmount_def appliedRate_def lengthRate_def)

section \<open>Claims\<close>

text \<open>
  C1. A call of \<open>recordProductUsage\<close> whose primary product is missing, or one of whose
  related products is missing or has no in-use lot, fails and leaves the whole database
  as it was; and whatever the reason, a failing call leaves the database as it was: no
  lot amount, no usage count, no \<open>Usage\<close> or \<open>RelatedProductUsage\<close> row has changed.
\<close>

theorem recordProductUsage_all_or_nothing:
  "(products db (rp_productId ps) = None \<or>
    (\<exists>r\<in>set (relatedOf ps).
        products db (rel_productId r) = None \<or> inUseLots db (rel_productId r) = [])
      \<longrightarrow> (\<exists>e. recordProductUsage now ps db = (Inl e, db))) \<and>
   (\<forall>e db'. recordProductUsage now ps db = (Inl e, db') \<longrightarrow> db' = db)"
proof (intro conjI impI allI)
  fix e db'
  assume "recordProductUsage now ps db = (Inl e, db')"
  then show "db' = db" by (rule recordProductUsage_rollback)
next
  assume "products db (rp_productId ps) = None \<or>
    (\<exists>r\<in>set (relatedOf ps).
        products db (rel_productId r) = None \<or> inUseLots db (rel_productId r) = [])"
  then show "\<exists>e. recordProductUsage now ps db = (Inl e, db)"
  proof
    assume "products db (rp_productId ps) = None"
    then show ?thesis by (simp add: recordProductUsage_def)
  next
    assume rel: "\<exists>r\<in>set (relatedOf ps).
        products db (rel_productId r) = None \<or> inUseLots db (rel_productId r) = []"
    have tx: "\<exists>e. transaction (usageTransaction now ps st l) db = (Inl e, db)" for st l
      using usageTransaction_fails [OF rel, of now st l] by (auto simp: transaction_def)
    show ?thesis
      unfolding recordProductUsage_def
      by (simp split: option.split list.split add: tx)
  qed
qed

theorem recordProductUsage_all_or_nothing_witness:
  "(\<exists>r\<in>set (relatedOf (exampleUsage (1 / 2) [exampleRelated 11 (3 / 10), exampleRelated 12 (2 / 5)])).
      inUseLots (exampleDb exampleLots) (rel_productId r) = []) \<and>
   recordProductUsage (exampleDate 300)
     (exampleUsage (1 / 2) [exampleRelated 11 (3 / 10), exampleRelated 12 (2 / 5)])
     (exampleDb exampleLots) =
   (Inl (NoAvailableRelatedLots 12), exampleDb exampleLots)"
proof -
  let ?ps = "exampleUsage (1 / 2) [exampleRelated 11 (3 / 10), exampleRelated 12 (2 / 5)]"
  let ?db = "exampleDb exampleLots"
  have empty: "\<exists>r\<in>set (relatedOf ?ps). inUseLots ?db (rel_productId r) = []"
    by (simp add: example_defs model_defs)
  then have "products ?db (rp_productId ?ps) = None \<or>
    (\<exists>r\<in>set (relatedOf ?ps).
        products ?db (rel_productId r) = None \<or> inUseLots ?db (rel_productId r) = [])"
    by blast
  with recordProductUsage_all_or_nothing [of ?db ?ps "exampleDate 300"]
  obtain e where e: "recordProductUsage (exampleDate 300) ?ps ?db = (Inl e, ?db)"
    by blast
  have "fst (recordProductUsage (exampleDate 300) ?ps ?db) = Inl (NoAvailableRelatedLots 12)"
    by (simp add: example_defs model_defs)
  with e have "e = NoAvailableRelatedLots 12" by simp
  with e empty show ?thesis by simp
qed

text \<open>
  C4. \<open>recordProductUsage\<close> on an existing product with no in-use lot fails with the
  out-of-stock error \<open>NoAvailableLots\<close> and changes nothing. When it succeeds, there is
  an in-use lot of the product whose \<open>startedAt\<close> is least among the product's in-use
  lots (a null \<open>startedAt\<close> counting as least) such that: the returned \<open>Usage\<close> row
  references that lot, carries the product id and the usage amount of the call, and is the
  one row appended to the \<open>Usage\<close> table; and, lot ids being unique, the lot table
  afterwards is the old one, row by row, where the selected lot has its \<open>currentAmount\<close>
  decremented by the usage amount (plus the amounts of the related entries that name the
  primary product again, which draw from the same lot; a null amount stays null) and every
  other lot of the primary product is exactly as it was.
\<close>

theorem recordProductUsage_fifo:
  "(\<forall>p. products db (rp_productId ps) = Some p \<and>
        \<not> (\<exists>l\<in>set (productLots db). lot_productId l = rp_productId ps \<and> lot_isInUse l)
        \<longrightarrow> recordProductUsage now ps db = (Inl (NoAvailableLots (p_productName p)), db)) \<and>
   (\<forall>u db'. recordProductUsage now ps db = (Inr u, db') \<longrightarrow>
      (\<exists>l\<in>set (productLots db).
           u_usedLotId u = Some (lot_id l) \<and> lot_productId l = rp_productId ps \<and> lot_isInUse l \<and>
           (\<forall>l'\<in>set (productLots db).
               lot_productId l' = rp_productId ps \<and> lot_isInUse l' \<longrightarrow> startedKey l \<le> startedKey l') \<and>
           u_productId u = rp_productId ps \<and> u_usageAmount u = rp_usageAmount ps \<and>
           usages db' = usages db @ [u] \<and>
           (distinct (map lot_id (productLots db)) \<longrightarrow>
              list_all2
                (\<lambda>a a'. (lot_id a = lot_id l \<longrightarrow>
                            a' = drawLot (rp_usageAmount ps +
                                   sum_list (map rel_amount
                                     (filter (\<lambda>r. rel_productId r = rp_productId ps) (relatedOf ps)))) a) \<and>
                         (lot_productId a = rp_productId ps \<and> lot_id a \<noteq> lot_id l \<longrightarrow> a' = a))
                (productLots db) (productLots db'))))"
proof (intro conjI allI impI)
  fix p
  assume "products db (rp_productId ps) = Some p \<and>
        \<not> (\<exists>l\<in>set (productLots db). lot_productId l = rp_productId ps \<and> lot_isInUse l)"
  then show "recordProductUsage now ps db = (Inl (NoAvailableLots (p_productName p)), db)"
    using fifo_out_of_stock by blast
next
  fix u db'
  assume "recordProductUsage now ps db = (Inr u, db')"
  then show "\<exists>l\<in>set (productLots db).
           u_usedLotId u = Some (lot_id l) \<and> lot_productId l = rp_productId ps \<and> lot_isInUse l \<and>
           (\<forall>l'\<in>set (productLots db).
               lot_productId l' = rp_productId ps \<and> lot_isInUse l' \<longrightarrow> startedKey l \<le> startedKey l') \<and>
           u_productId u = rp_productId ps \<and> u_usageAmount u = rp_usageAmount ps \<and>
           usages db' = usages db @ [u] \<and>
           (distinct (map lot_id (productLots db)) \<longrightarrow>
              list_all2
                (\<lambda>a a'. (lot_id a = lot_id l \<longrightarrow>
                            a' = drawLot (rp_usageAmount ps +
                                   sum_list (map rel_amount
                                     (filter (\<lambda>r. rel_productId r = rp_productId ps) (relatedOf ps)))) a) \<and>
                         (lot_productId a = rp_productId ps \<and> lot_id a \<noteq> lot_id l \<longrightarrow> a' = a))
                (productLots db) (productLots db'))"
    by (rule fifo_selected)
qed

theorem recordProductUsage_fifo_witness:
  "recordProductUsage (exampleDate 300) ((exampleUsage (1 / 2) [])\<lparr>rp_productId := 12\<rparr>)
      (exampleDb exampleLots) =
     (Inl (NoAvailableLots ''Top Coat''), exampleDb exampleLots) \<and>
   map (\<lambda>l. (lot_id l, startedKey l)) (inUseLots (exampleDb exampleLots) 10) =
     [(21, Some 100), (20, Some 200)] \<and>
   fst (recordProductUsage (exampleDate 300)
          (exampleUsage (1 / 2) [exampleRelated 11 (3 / 10), exampleRelated 10 (1 / 4)])
          (exampleDb exampleLots)) =
     Inr \<lparr>u_id = 100, u_date = exampleDate 300, u_usageAmount = 1 / 2, u_defaultAmount = None,
          u_nailLength = MEDIUM, u_isCustomAmount = False, u_isGelService = False,
          u_serviceTypeId = 30, u_productId = 10, u_usedLotId = Some 21, u_note = None\<rparr> \<and>
   usages (snd (recordProductUsage (exampleDate 300)
          (exampleUsage (1 / 2) [exampleRelated 11 (3 / 10), exampleRelated 10 (1 / 4)])
          (exampleDb exampleLots))) =
     [\<lparr>u_id = 100, u_date = exampleDate 300, u_usageAmount = 1 / 2, u_defaultAmount = None,
       u_nailLength = MEDIUM, u_isCustomAmount = False, u_isGelService = False,
       u_serviceTypeId = 30, u_productId = 10, u_usedLotId = Some 21, u_note = None\<rparr>] \<and>
   distinct (map lot_id exampleLots) \<and>
   list_all2 (\<lambda>a a'. (lot_id a = 21 \<longrightarrow> a' = drawLot (3 / 4) a) \<and>
                   (lot_productId a = 10 \<and> lot_id a \<noteq> 21 \<longrightarrow> a' = a))
     exampleLots
     (productLots (snd (recordProductUsage (exampleDate 300)
          (exampleUsage (1 / 2) [exampleRelated 11 (3 / 10), exampleRelated 10 (1 / 4)])
          (exampleDb exampleLots)))) \<and>
   map (\<lambda>l. (lot_id l, lot_currentAmount l))
     (productLots (snd (recordProductUsage (exampleDate 300)
          (exampleUsage (1 / 2) [exampleRelated 11 (3 / 10), exampleRelated 10 (1 / 4)])
          (exampleDb exampleLots)))) =
     [(20, Some 15), (21, Some (29 / 4)), (22, None), (23, Some (7 / 10)), (24, None)]"
proof -
  let ?ps = "exampleUsage (1 / 2) [exampleRelated 11 (3 / 10), exampleRelated 10 (1 / 4)]"
  let ?top = "(exampleUsage (1 / 2) [])\<lparr>rp_productId := 12\<rparr>"
  let ?db = "exampleDb exampleLots"
  let ?r = "recordProductUsage (exampleDate 300) ?ps ?db"
  have top: "products ?db (rp_productId ?top) = Some (exampleProduct 12 ''Top Coat'' POLISH_TOP 0 1) \<and>
      \<not> (\<exists>l\<in>set (productLots ?db). lot_productId l = rp_productId ?top \<and> lot_isInUse l)"
    by (simp add: example_defs)
  from recordProductUsage_fifo [of ?db ?top "exampleDate 300", THEN conjunct1, THEN spec, THEN mp, OF top]
  have 1: "recordProductUsage (exampleDate 300) ?top ?db = (Inl (NoAvailableLots ''Top Coat''), ?db)"
    by (simp add: exampleProduct_def)
  have 2: "map (\<lambda>l. (lot_id l, startedKey l)) (inUseLots ?db 10) = [(21, Some 100), (20, Some 200)]"
    by (simp add: example_defs model_defs)
  have f: "fst ?r = Inr \<lparr>u_id = 100, u_date = exampleDate 300, u_usageAmount = 1 / 2,
           u_defaultAmount = None, u_nailLength = MEDIUM, u_isCustomAmount = False,
           u_isGelService = False, u_serviceTypeId = 30, u_productId = 10,
           u_usedLotId = Some 21, u_note = None\<rparr>" (is "_ = Inr ?u")
    by (simp add: example_defs model_defs)
  then have ok: "?r = (Inr ?u, snd ?r)"
    by (simp add: prod_eq_iff)
  have lots: "productLots ?db = exampleLots" and pid: "rp_productId ?ps = 10"
    and none: "usages ?db = []"
    and amt: "rp_usageAmount ?ps +
        sum_list (map rel_amount (filter (\<lambda>r. rel_productId r = 10) (relatedOf ?ps))) = 3 / 4"
    by (simp_all add: exampleDb_def exampleUsage_def exampleRelated_def relatedOf_def orDefault_def)
  have 4: "distinct (map lot_id exampleLots)"
    by (simp add: exampleLots_def exampleLot_def)
  from recordProductUsage_fifo [of ?db ?ps "exampleDate 300", THEN conjunct2, THEN spec, THEN spec,
      THEN mp, OF ok]
  obtain l where l: "u_usedLotId ?u = Some (lot_id l) \<and> lot_productId l = rp_productId ?ps \<and>
      lot_isInUse l \<and>
      (\<forall>l'\<in>set (productLots ?db).
          lot_productId l' = rp_productId ?ps \<and> lot_isInUse l' \<longrightarrow> startedKey l \<le> startedKey l') \<and>
      u_productId ?u = rp_productId ?ps \<and> u_usageAmount ?u = rp_usageAmount ?ps \<and>
      usages (snd ?r) = usages ?db @ [?u] \<and>
      (distinct (map lot_id (productLots ?db)) \<longrightarrow>
         list_all2
           (\<lambda>a a'. (lot_id a = lot_id l \<longrightarrow>
                       a' = drawLot (rp_usageAmount ?ps +
                              sum_list (map rel_amount
                                (filter (\<lambda>r. rel_productId r = rp_productId ?ps) (relatedOf ?ps)))) a) \<and>
                    (lot_productId a = rp_productId ?ps \<and> lot_id a \<noteq> lot_id l \<longrightarrow> a' = a))
           (productLots ?db) (productLots (snd ?r)))" ..
  then have l21: "lot_id l = 21" by simp
  from l have 3: "usages (snd ?r) = [?u]"
    unfolding none by simp
  from l l21 4 have 5: "list_all2 (\<lambda>a a'. (lot_id a = 21 \<longrightarrow> a' = drawLot (3 / 4) a) \<and>
                   (lot_productId a = 10 \<and> lot_id a \<noteq> 21 \<longrightarrow> a' = a))
     exampleLots (productLots (snd ?r))"
    unfolding lots pid amt by simp
  have 6: "map (\<lambda>l. (lot_id l, lot_currentAmount l)) (productLots (snd ?r)) =
     [(20, Some 15), (21, Some (29 / 4)), (22, None), (23, Some (7 / 10)), (24, None)]"
    by (simp add: example_defs model_defs)
  from 1 2 f 3 4 5 6 show ?thesis by (intro conjI)
qed

text \<open>
  C10. A successful \<open>recordProductUsage\<close> changes, of the products, only the primary
  product's \<open>usageCount\<close> and \<open>lastUsed\<close> (so its three quantity counters stay);
  of the lots, only \<open>currentAmount\<close>, and only of the lots drawn from (so every
  \<open>isInUse\<close> and \<open>startedAt\<close> stays); stores, users, service types and monthly
  statistics not at all; and it appends the \<open>Usage\<close> row, one \<open>RelatedProductUsage\<close>
  row per related entry and one activity.
\<close>

theorem recordProductUsage_frame:
  assumes ok: "recordProductUsage now ps db = (Inr u, db')"
  shows "(\<exists>p. products db (rp_productId ps) = Some p \<and>
            products db' = (products db)(rp_productId ps \<mapsto>
              p\<lparr>p_usageCount := p_usageCount p + 1, p_lastUsed := Some now\<rparr>)) \<and>
         list_all2 (\<lambda>l l'. l' = l\<lparr>lot_currentAmount := lot_currentAmount l'\<rparr> \<and>
                         (l' = l \<or> lot_id l \<in> set (drawnLotIds db ps)))
           (productLots db) (productLots db') \<and>
         stores db' = stores db \<and> users db' = users db \<and>
         serviceTypes db' = serviceTypes db \<and>
         monthlyServiceStats db' = monthlyServiceStats db \<and>
         usages db' = usages db @ [u] \<and>
         (\<exists>new. relatedProductUsages db' = relatedProductUsages db @ new \<and>
                map ru_productId new = map rel_productId (relatedOf ps)) \<and>
         (\<exists>a. activities db' = activities db @ [a])"
proof -
  from recordProductUsage_lots [OF ok] obtain F where F:
    "productLots db' = map F (productLots db) \<and>
     (\<forall>l. lotShape (F l) = lotShape l) \<and>
     (\<forall>l. F l \<noteq> l \<longrightarrow>
        (\<exists>q\<in>set (rp_productId ps # map rel_productId (relatedOf ps)).
           \<exists>x xs. inUseLots db q = x # xs \<and> lot_id l = lot_id x))" ..
  have a: "F l = l\<lparr>lot_currentAmount := lot_currentAmount (F l)\<rparr>" for l
    using F by (intro shape_only_amount) simp
  have b: "F l = l \<or> lot_id l \<in> set (drawnLotIds db ps)" for l
  proof (cases "F l = l")
    case False
    with F obtain q x xs where "q \<in> set (rp_productId ps # map rel_productId (relatedOf ps))"
      "inUseLots db q = x # xs" "lot_id l = lot_id x"
      by blast
    then show ?thesis using drawnLotIds_head [of q ps db x xs] by simp
  qed simp
  have lots: "list_all2 (\<lambda>l l'. l' = l\<lparr>lot_currentAmount := lot_currentAmount l'\<rparr> \<and>
                         (l' = l \<or> lot_id l \<in> set (drawnLotIds db ps)))
           (productLots db) (productLots db')"
    using F a b by (simp add: list_all2_map2 list_all2_same)
  from recordProductUsage_fields [OF ok] lots show ?thesis
    by (elim conjE) (intro conjI)
qed


theorem recordProductUsage_frame_witness:
  "recordProductUsage (exampleDate 300) (exampleUsage (1 / 2) [exampleRelated 11 (3 / 10)])
      (exampleDb exampleLots) =
     (Inr \<lparr>u_id = 100, u_date = exampleDate 300, u_usageAmount = 1 / 2, u_defaultAmount = None,
           u_nailLength = MEDIUM, u_isCustomAmount = False, u_isGelService = False,
           u_serviceTypeId = 30, u_productId = 10, u_usedLotId = Some 21, u_note = None\<rparr>,
      snd (recordProductUsage (exampleDate 300) (exampleUsage (1 / 2) [exampleRelated 11 (3 / 10)])
             (exampleDb exampleLots))) \<and>
   products (snd (recordProductUsage (exampleDate 300)
                    (exampleUsage (1 / 2) [exampleRelated 11 (3 / 10)]) (exampleDb exampleLots))) =
     (products (exampleDb exampleLots))(10 \<mapsto>
        (exampleProduct 10 ''Red Polish'' POLISH_COLOR 2 1)
          \<lparr>p_usageCount := 1, p_lastUsed := Some (exampleDate 300)\<rparr>) \<and>
   drawnLotIds (exampleDb exampleLots) (exampleUsage (1 / 2) [exampleRelated 11 (3 / 10)]) = [21, 23] \<and>
   list_all2 (\<lambda>l l'. l' = l\<lparr>lot_currentAmount := lot_currentAmount l'\<rparr> \<and>
                   (l' = l \<or> lot_id l = 21 \<or> lot_id l = 23))
     exampleLots
     (productLots (snd (recordProductUsage (exampleDate 300)
                    (exampleUsage (1 / 2) [exampleRelated 11 (3 / 10)]) (exampleDb exampleLots))))"
proof -
  let ?ps = "exampleUsage (1 / 2) [exampleRelated 11 (3 / 10)]"
  let ?db = "exampleDb exampleLots"
  let ?u = "\<lparr>u_id = 100, u_date = exampleDate 300, u_usageAmount = 1 / 2, u_defaultAmount = None,
           u_nailLength = MEDIUM, u_isCustomAmount = False, u_isGelService = False,
           u_serviceTypeId = 30, u_productId = 10, u_usedLotId = Some 21, u_note = None\<rparr>"
  let ?r = "recordProductUsage (exampleDate 300) ?ps ?db"
  have "fst ?r = Inr ?u"
    by (simp add: example_defs model_defs)
  then have ok: "?r = (Inr ?u, snd ?r)"
    by (simp add: prod_eq_iff)
  have p: "products ?db (rp_productId ?ps) = Some (exampleProduct 10 ''Red Polish'' POLISH_COLOR 2 1)"
    by (simp add: exampleDb_def exampleUsage_def)
  have d: "drawnLotIds ?db ?ps = [21, 23]"
    by (simp add: drawnLotIds_def example_defs model_defs)
  have l: "productLots ?db = exampleLots" "rp_productId ?ps = 10"
    "p_usageCount (exampleProduct 10 ''Red Polish'' POLISH_COLOR 2 1) = 0"
    by (simp_all add: exampleDb_def exampleUsage_def exampleProduct_def)
  note frame = recordProductUsage_frame [OF ok]
  from frame [THEN conjunct1] obtain p0 where p0:
    "products ?db (rp_productId ?ps) = Some p0 \<and>
     products (snd ?r) = (products ?db)(rp_productId ?ps \<mapsto>
       p0\<lparr>p_usageCount := p_usageCount p0 + 1, p_lastUsed := Some (exampleDate 300)\<rparr>)" ..
  with p have "p0 = exampleProduct 10 ''Red Polish'' POLISH_COLOR 2 1" by simp
  with p0 have prods: "products (snd ?r) = (products ?db)(10 \<mapsto>
        (exampleProduct 10 ''Red Polish'' POLISH_COLOR 2 1)
          \<lparr>p_usageCount := 1, p_lastUsed := Some (exampleDate 300)\<rparr>)"
    by (simp add: l)
  from frame [THEN conjunct2, THEN conjunct1]
  have lots: "list_all2 (\<lambda>l l'. l' = l\<lparr>lot_currentAmount := lot_currentAmount l'\<rparr> \<and>
                   (l' = l \<or> lot_id l = 21 \<or> lot_id l = 23))
     exampleLots (productLots (snd ?r))"
    unfolding d l by simp
  from ok prods d lots show ?thesis by (intro conjI)
qed

text \<open>
  C2. The claim says a related entry whose amount exceeds its lot's \<open>currentAmount\<close> makes
  the call fail. The loop over the related products has no such check: with 1 left in the
  base coat's open lot, a related entry of 5 succeeds and leaves the lot at \<open>-4\<close>.
\<close>

theorem recordProductUsage_related_overdraw:
  "map (\<lambda>l. (lot_id l, lot_currentAmount l)) (inUseLots (exampleDb exampleLots) 11) = [(23, Some 1)] \<and>
   fst (recordProductUsage (exampleDate 300) (exampleUsage (1 / 2) [exampleRelated 11 5])
          (exampleDb exampleLots)) =
     Inr \<lparr>u_id = 100, u_date = exampleDate 300, u_usageAmount = 1 / 2, u_defaultAmount = None,
          u_nailLength = MEDIUM, u_isCustomAmount = False, u_isGelService = False,
          u_serviceTypeId = 30, u_productId = 10, u_usedLotId = Some 21, u_note = None\<rparr> \<and>
   map (\<lambda>l. (lot_id l, lot_currentAmount l))
     (productLots (snd (recordProductUsage (exampleDate 300)
        (exampleUsage (1 / 2) [exampleRelated 11 5]) (exampleDb exampleLots)))) =
     [(20, Some 15), (21, Some (15 / 2)), (22, None), (23, Some (- 4)), (24, None)]"
  by (simp add: example_defs model_defs)

text \<open>
  C3. The claim says \<open>recordProductUsage\<close> updates the monthly statistics. It does not:
  after a successful call there is still no row for the usage's service type and month.
\<close>

theorem recordProductUsage_stats_counterexample:
  "fst (recordProductUsage (exampleDate 300) (exampleUsage (1 / 2) []) (exampleDb exampleLots)) =
     Inr \<lparr>u_id = 100, u_date = exampleDate 300, u_usageAmount = 1 / 2, u_defaultAmount = None,
          u_nailLength = MEDIUM, u_isCustomAmount = False, u_isGelService = False,
          u_serviceTypeId = 30, u_productId = 10, u_usedLotId = Some 21, u_note = None\<rparr> \<and>
   getFullYear (exampleDate 300) = 2025 \<and> int (getMonth (exampleDate 300)) + 1 = 3 \<and>
   monthlyServiceStats
     (snd (recordProductUsage (exampleDate 300) (exampleUsage (1 / 2) []) (exampleDb exampleLots)))
     (30, 2025, 3) = None"
  by (simp add: example_defs model_defs)

text \<open>
  C3, as amended. \<open>recordProductUsage\<close> never writes the monthly statistics. They get
  the usage when the caller afterwards runs \<open>updateMonthlyStats\<close> with the usage's service
  type, amount and date: the row of that service type, year and month then counts one
  more usage and its amount.
\<close>

theorem recordProductUsage_leaves_stats:
  "monthlyServiceStats (snd (recordProductUsage now ps db)) = monthlyServiceStats db \<and>
   (\<forall>u db'. recordProductUsage now ps db = (Inr u, db') \<longrightarrow>
      (\<exists>row. monthlyServiceStats
                (updateMonthlyStats (u_serviceTypeId u) (u_usageAmount u) (u_date u) db')
                (rp_serviceTypeId ps, getFullYear now, int (getMonth now) + 1) = Some row \<and>
         ms_usageCount row =
           (case monthlyServiceStats db (rp_serviceTypeId ps, getFullYear now, int (getMonth now) + 1) of
              None \<Rightarrow> 1 | Some old \<Rightarrow> ms_usageCount old + 1) \<and>
         ms_totalUsage row =
           (case monthlyServiceStats db (rp_serviceTypeId ps, getFullYear now, int (getMonth now) + 1) of
              None \<Rightarrow> rp_usageAmount ps | Some old \<Rightarrow> ms_totalUsage old + rp_usageAmount ps)))"
proof (intro conjI allI impI)
  show "monthlyServiceStats (snd (recordProductUsage now ps db)) = monthlyServiceStats db"
    by (rule recordProductUsage_stats_unchanged)
next
  fix u db'
  assume ok: "recordProductUsage now ps db = (Inr u, db')"
  from recordProductUsage_success [OF ok] obtain usedLot st where
    tx: "usageTransaction now ps st usedLot db = Inr (u, db')"
    by blast
  from usageTransaction_success [OF tx] have "u = usageRow now ps st usedLot db" by blast
  then have u: "u_serviceTypeId u = rp_serviceTypeId ps" "u_usageAmount u = rp_usageAmount ps"
    "u_date u = now"
    by (simp_all add: usageRow_def)
  from recordProductUsage_stats_unchanged [of now ps db] ok
  have same: "monthlyServiceStats db' = monthlyServiceStats db" by simp
  from updateMonthlyStats_row [of "rp_serviceTypeId ps" "rp_usageAmount ps" now db']
  show "\<exists>row. monthlyServiceStats
                (updateMonthlyStats (u_serviceTypeId u) (u_usageAmount u) (u_date u) db')
                (rp_serviceTypeId ps, getFullYear now, int (getMonth now) + 1) = Some row \<and>
         ms_usageCount row =
           (case monthlyServiceStats db (rp_serviceTypeId ps, getFullYear now, int (getMonth now) + 1) of
              None \<Rightarrow> 1 | Some old \<Rightarrow> ms_usageCount old + 1) \<and>
         ms_totalUsage row =
           (case monthlyServiceStats db (rp_serviceTypeId ps, getFullYear now, int (getMonth now) + 1) of
              None \<Rightarrow> rp_usageAmount ps | Some old \<Rightarrow> ms_totalUsage old + rp_usageAmount ps)"
    unfolding u same .
qed

theorem recordProductUsage_leaves_stats_witness:
  "fst (recordProductUsage (exampleDate 300) (exampleUsage (1 / 2) []) (exampleDb exampleLots)) =
     Inr \<lparr>u_id = 100, u_date = exampleDate 300, u_usageAmount = 1 / 2, u_defaultAmount = None,
          u_nailLength = MEDIUM, u_isCustomAmount = False, u_isGelService = False,
          u_serviceTypeId = 30, u_productId = 10, u_usedLotId = Some 21, u_note = None\<rparr> \<and>
   monthlyServiceStats
     (snd (recordProductUsage (exampleDate 300) (exampleUsage (1 / 2) []) (exampleDb exampleLots))) =
     Map.empty \<and>
   map_option (\<lambda>row. (ms_totalUsage row, ms_usageCount row))
     (monthlyServiceStats
        (updateMonthlyStats 30 (1 / 2) (exampleDate 300)
           (snd (recordProductUsage (exampleDate 300) (exampleUsage (1 / 2) [])
                   (exampleDb exampleLots))))
        (30, 2025, 3)) = Some (1 / 2, 1)"
proof -
  let ?ps = "exampleUsage (1 / 2) []"
  let ?db = "exampleDb exampleLots"
  let ?r = "recordProductUsage (exampleDate 300) ?ps ?db"
  have f: "fst ?r = Inr \<lparr>u_id = 100, u_date = exampleDate 300, u_usageAmount = 1 / 2,
           u_defaultAmount = None, u_nailLength = MEDIUM, u_isCustomAmount = False,
           u_isGelService = False, u_serviceTypeId = 30, u_productId = 10,
           u_usedLotId = Some 21, u_note = None\<rparr>" (is "_ = Inr ?u")
    by (simp add: example_defs model_defs)
  then have ok: "?r = (Inr ?u, snd ?r)"
    by (simp add: prod_eq_iff)
  note T = recordProductUsage_leaves_stats [of "exampleDate 300" ?ps ?db]
  have none: "monthlyServiceStats ?db = Map.empty"
    by (simp add: exampleDb_def)
  from T [THEN conjunct1] have 1: "monthlyServiceStats (snd ?r) = Map.empty"
    by (simp only: none)
  from T [THEN conjunct2, THEN spec, THEN spec, THEN mp, OF ok] obtain row where row:
    "monthlyServiceStats
       (updateMonthlyStats (u_serviceTypeId ?u) (u_usageAmount ?u) (u_date ?u) (snd ?r))
       (rp_serviceTypeId ?ps, getFullYear (exampleDate 300), int (getMonth (exampleDate 300)) + 1) =
       Some row \<and>
     ms_usageCount row =
       (case monthlyServiceStats ?db
               (rp_serviceTypeId ?ps, getFullYear (exampleDate 300),
                int (getMonth (exampleDate 300)) + 1) of
          None \<Rightarrow> 1 | Some old \<Rightarrow> ms_usageCount old + 1) \<and>
     ms_totalUsage row =
       (case monthlyServiceStats ?db
               (rp_serviceTypeId ?ps, getFullYear (exampleDate 300),
                int (getMonth (exampleDate 300)) + 1) of
          None \<Rightarrow> rp_usageAmount ?ps | Some old \<Rightarrow> ms_totalUsage old + rp_usageAmount ?ps)" ..
  have k: "rp_serviceTypeId ?ps = 30" "rp_usageAmount ?ps = 1 / 2"
    "getFullYear (exampleDate 300) = 2025" "int (getMonth (exampleDate 300)) + 1 = 3"
    by (simp_all add: exampleUsage_def exampleDate_def)
  from row have 2: "map_option (\<lambda>row. (ms_totalUsage row, ms_usageCount row))
     (monthlyServiceStats (updateMonthlyStats 30 (1 / 2) (exampleDate 300) (snd ?r)) (30, 2025, 3)) =
     Some (1 / 2, 1)"
    unfolding k none by simp
  from f 1 2 show ?thesis by (intro conjI)
qed

text \<open>
  C5. The claim says \<open>addProductStock\<close> keeps the counters equal to the numbers of lot
  rows. It creates one lot whatever the quantity, and adds the quantity to the counters:
  for a product with three lots and counters 3, 2, 1, a call with quantity 3 leaves four
  lots (two unused) and counters 6, 2, 4.
\<close>

theorem addProductStock_counters_diverge:
  "productCounters (exampleDb exampleLots) 10 = Some (3, 2, 1) \<and>
   lotCounts (exampleDb exampleLots) 10 = (3, 2, 1) \<and>
   fst (addProductStock (exampleDate 300) (exampleStock 3) (exampleDb exampleLots)) =
     Inr \<lparr>lot_id = 100, lot_productId = 10, lot_isInUse = False, lot_currentAmount = None,
          lot_startedAt = None\<rparr> \<and>
   productCounters
     (snd (addProductStock (exampleDate 300) (exampleStock 3) (exampleDb exampleLots))) 10 =
     Some (6, 2, 4) \<and>
   lotCounts
     (snd (addProductStock (exampleDate 300) (exampleStock 3) (exampleDb exampleLots))) 10 =
     (4, 2, 2)"
  by (simp add: stock_defs example_defs model_defs)

text \<open>
  C6. The claim says a depleted oldest lot is passed over. It is not: the oldest in-use
  lot is selected whatever it holds, and the call fails on it.
\<close>

theorem recordProductUsage_depleted_counterexample:
  "map (\<lambda>l. (lot_id l, startedKey l, lot_currentAmount l)) (inUseLots (exampleDb depletedLots) 10) =
     [(21, Some 100, Some 0), (20, Some 200, Some 15)] \<and>
   recordProductUsage (exampleDate 300) (exampleUsage 1 []) (exampleDb depletedLots) =
     (Inl (NotEnoughLeft 0 1), exampleDb depletedLots)"
  by (simp add: depletedLots_def example_defs model_defs)

text \<open>
  C6, as amended. While the oldest in-use lot of a product holds 0, a call with a positive
  amount fails and changes nothing, whatever the later-opened lots hold; when the product,
  the service type and the user exist, the error is the insufficient-quantity error
  \<open>NotEnoughLeft\<close>.
\<close>

theorem recordProductUsage_depleted:
  assumes "inUseLots db (rp_productId ps) = l # ls"
    and "lot_currentAmount l = Some 0"
    and "0 < rp_usageAmount ps"
  shows "\<exists>e. recordProductUsage now ps db = (Inl e, db) \<and>
             (products db (rp_productId ps) \<noteq> None \<and>
              serviceTypes db (rp_serviceTypeId ps) \<noteq> None \<and>
              users db (rp_recordedBy ps) \<noteq> None
              \<longrightarrow> e = NotEnoughLeft 0 (rp_usageAmount ps))"
  using assms unfolding recordProductUsage_def
  by (simp split: option.split)

theorem recordProductUsage_depleted_witness:
  "inUseLots (exampleDb depletedLots) 10 =
     [exampleLot 21 10 (Some (0, 100)), exampleLot 20 10 (Some (15, 200))] \<and>
   lot_currentAmount (exampleLot 21 10 (Some (0, 100))) = Some 0 \<and>
   recordProductUsage (exampleDate 400) (exampleUsage (3 / 10) []) (exampleDb depletedLots) =
     (Inl (NotEnoughLeft 0 (3 / 10)), exampleDb depletedLots)"
proof -
  let ?ps = "exampleUsage (3 / 10) []"
  let ?db = "exampleDb depletedLots"
  have 1: "inUseLots ?db (rp_productId ?ps) =
      exampleLot 21 10 (Some (0, 100)) # [exampleLot 20 10 (Some (15, 200))]"
    by (simp add: depletedLots_def example_defs model_defs)
  have 2: "lot_currentAmount (exampleLot 21 10 (Some (0, 100))) = Some 0"
    by (simp add: exampleLot_def)
  have 3: "0 < rp_usageAmount ?ps"
    by (simp add: exampleUsage_def)
  have 4: "products ?db (rp_productId ?ps) \<noteq> None \<and>
      serviceTypes ?db (rp_serviceTypeId ?ps) \<noteq> None \<and> users ?db (rp_recordedBy ?ps) \<noteq> None"
    by (simp add: exampleDb_def exampleUsage_def)
  from recordProductUsage_depleted [OF 1 2 3, of "exampleDate 400"] obtain e where
    e: "recordProductUsage (exampleDate 400) ?ps ?db = (Inl e, ?db) \<and>
        (products ?db (rp_productId ?ps) \<noteq> None \<and>
         serviceTypes ?db (rp_serviceTypeId ?ps) \<noteq> None \<and> users ?db (rp_recordedBy ?ps) \<noteq> None
         \<longrightarrow> e = NotEnoughLeft 0 (rp_usageAmount ?ps))" ..
  with 4 have "e = NotEnoughLeft 0 (rp_usageAmount ?ps)" by blast
  then have "e = NotEnoughLeft 0 (3 / 10)" by (simp add: exampleUsage_def)
  with e have 5: "recordProductUsage (exampleDate 400) ?ps ?db = (Inl (NotEnoughLeft 0 (3 / 10)), ?db)"
    by simp
  have 6: "rp_productId ?ps = 10" by (simp add: exampleUsage_def)
  from 1 2 5 show ?thesis unfolding 6 by simp
qed

text \<open>
  C7. The claim is made for every \<open>totalQuantity\<close>. Nothing in \<open>createProduct\<close> rejects a
  negative one: with \<open>totalQuantity = -2\<close> on an existing store the call succeeds, persists
  the product with \<open>totalQuantity = lotQuantity = -2\<close>, and the loop creates no lot, so the
  product has 0 lots, not \<open>lotQuantity\<close> many.
\<close>

theorem createProduct_negative_counterexample:
  "fst (createProduct (exampleNewProduct 1 (Some (- 2))) (exampleDb exampleLots)) =
     Inr \<lparr>p_id = 100, p_brand = ''OPI'', p_productName = ''Red Nail Polish'',
          p_colorCode = ''#FF0000'', p_colorName = ''Ruby Red'', p_opacity = 1,
          p_type = POLISH_COLOR, p_price = 1200, p_isLiquid = True, p_useColorPicker = True,
          p_capacity = Some 15, p_capacityUnit = Some ''ml'', p_averageUsePerService = None,
          p_totalQuantity = - 2, p_inUseQuantity = 0, p_lotQuantity = - 2,
          p_recommendedAlertPercentage = 20, p_minStockAlert = 5, p_usageCount = 0,
          p_lastUsed = None, p_storeId = 1\<rparr> \<and>
   productCounters
     (snd (createProduct (exampleNewProduct 1 (Some (- 2))) (exampleDb exampleLots))) 100 =
     Some (- 2, 0, - 2) \<and>
   lotCounts
     (snd (createProduct (exampleNewProduct 1 (Some (- 2))) (exampleDb exampleLots))) 100 =
     (0, 0, 0) \<and>
   productLots (snd (createProduct (exampleNewProduct 1 (Some (- 2))) (exampleDb exampleLots))) =
     exampleLots"
  by (simp add: createProduct_def lotCounts_def productCounters_def orDefault_def
      exampleNewProduct_def example_defs Let_def)

text \<open>
  C7, as amended. \<open>createProduct\<close> on a missing store fails with \<open>StoreNotFound\<close> and
  creates nothing. On an existing store, with \<open>totalQuantity = n\<close> (1 when omitted), it
  persists the product with \<open>totalQuantity = lotQuantity = n\<close> and \<open>inUseQuantity = 0\<close>
  and appends lots to the lot table, each an unused lot of the new product: exactly \<open>n\<close> of
  them when \<open>0 \<le> n\<close>, and none when \<open>n \<le> 0\<close>. When no earlier lot refers to the new id,
  these are all the lots of the product.
\<close>

theorem createProduct_lots:
  "(stores db (cp_storeId ps) = None \<longrightarrow>
      createProduct ps db = (Inl (StoreNotFound (cp_storeId ps)), db)) \<and>
   (stores db (cp_storeId ps) \<noteq> None \<longrightarrow>
      (\<exists>p db' new.
          createProduct ps db = (Inr p, db') \<and>
          products db' = (products db)(p_id p \<mapsto> p) \<and>
          p_totalQuantity p = orDefault (cp_totalQuantity ps) 1 \<and>
          p_lotQuantity p = orDefault (cp_totalQuantity ps) 1 \<and>
          p_inUseQuantity p = 0 \<and>
          productLots db' = productLots db @ new \<and>
          (0 \<le> orDefault (cp_totalQuantity ps) 1 \<longrightarrow>
             int (length new) = orDefault (cp_totalQuantity ps) 1) \<and>
          (orDefault (cp_totalQuantity ps) 1 \<le> 0 \<longrightarrow> new = []) \<and>
          list_all (isUnusedLotOf (p_id p)) new \<and>
          ((\<forall>l\<in>set (productLots db). lot_productId l \<noteq> nextId db) \<longrightarrow>
             filter (\<lambda>l. lot_productId l = p_id p) (productLots db') = new)))"
proof (intro conjI impI)
  assume "stores db (cp_storeId ps) = None"
  then show "createProduct ps db = (Inl (StoreNotFound (cp_storeId ps)), db)"
    by (simp add: createProduct_def)
next
  assume st: "stores db (cp_storeId ps) \<noteq> None"
  define n where "n = orDefault (cp_totalQuantity ps) 1"
  define p where "p =
     \<lparr>p_id = nextId db,
      p_brand = cp_brand ps,
      p_productName = cp_productName ps,
      p_colorCode = orDefault (cp_colorCode ps) [],
      p_colorName = orDefault (cp_colorName ps) [],
      p_opacity = orDefault (cp_opacity ps) 1,
      p_type = cp_type ps,
      p_price = cp_price ps,
      p_isLiquid = orDefault (cp_isLiquid ps) True,
      p_useColorPicker = orDefault (cp_useColorPicker ps) True,
      p_capacity = cp_capacity ps,
      p_capacityUnit = cp_capacityUnit ps,
      p_averageUsePerService = cp_averageUsePerService ps,
      p_totalQuantity = n,
      p_inUseQuantity = 0,
      p_lotQuantity = n,
      p_recommendedAlertPercentage = orDefault (cp_recommendedAlertPercentage ps) 20,
      p_minStockAlert = orDefault (cp_minStockAlert ps) 5,
      p_usageCount = 0,
      p_lastUsed = None,
      p_storeId = cp_storeId ps\<rparr>"
  define db1 where "db1 = db\<lparr>nextId := Suc (nextId db), products := (products db)(nextId db \<mapsto> p)\<rparr>"
  define db' where "db' = createLots (nat n) (nextId db) db1"
  from st have res: "createProduct ps db = (Inr p, db')"
    by (auto simp: createProduct_def Let_def p_def n_def db1_def db'_def)
  have pid: "p_id p = nextId db" by (simp add: p_def)
  have prods: "products db' = (products db)(p_id p \<mapsto> p)"
    by (simp add: db'_def createLots_frame db1_def pid)
  from createLots_new [of "nat n" "nextId db" db1] obtain new where new:
    "productLots db' = productLots db1 @ new \<and> length new = nat n \<and>
     list_all (isUnusedLotOf (nextId db)) new"
    unfolding db'_def ..
  have lots1: "productLots db1 = productLots db" by (simp add: db1_def)
  have fresh: "filter (\<lambda>l. lot_productId l = p_id p) (productLots db') = new"
    if "\<forall>l\<in>set (productLots db). lot_productId l \<noteq> nextId db"
  proof -
    from that have "filter (\<lambda>l. lot_productId l = nextId db) (productLots db) = []"
      by (simp add: filter_empty_conv)
    moreover from new have "filter (\<lambda>l. lot_productId l = nextId db) new = new"
      by (simp add: filter_id_conv list_all_iff isUnusedLotOf_def)
    ultimately show ?thesis using new by (simp add: lots1 pid)
  qed
  from new have len: "length new = nat n" by simp
  have some: "int (length new) = orDefault (cp_totalQuantity ps) 1"
    if "0 \<le> orDefault (cp_totalQuantity ps) 1"
    using that len by (simp add: n_def)
  have none: "new = []" if "orDefault (cp_totalQuantity ps) 1 \<le> 0"
    using that len by (simp add: n_def)
  have "createProduct ps db = (Inr p, db') \<and>
          products db' = (products db)(p_id p \<mapsto> p) \<and>
          p_totalQuantity p = orDefault (cp_totalQuantity ps) 1 \<and>
          p_lotQuantity p = orDefault (cp_totalQuantity ps) 1 \<and>
          p_inUseQuantity p = 0 \<and>
          productLots db' = productLots db @ new \<and>
          (0 \<le> orDefault (cp_totalQuantity ps) 1 \<longrightarrow>
             int (length new) = orDefault (cp_totalQuantity ps) 1) \<and>
          (orDefault (cp_totalQuantity ps) 1 \<le> 0 \<longrightarrow> new = []) \<and>
          list_all (isUnusedLotOf (p_id p)) new \<and>
          ((\<forall>l\<in>set (productLots db). lot_productId l \<noteq> nextId db) \<longrightarrow>
             filter (\<lambda>l. lot_productId l = p_id p) (productLots db') = new)"
    using res prods new fresh some none by (simp add: lots1 pid) (simp add: p_def n_def)
  then show "\<exists>p db' new.
          createProduct ps db = (Inr p, db') \<and>
          products db' = (products db)(p_id p \<mapsto> p) \<and>
          p_totalQuantity p = orDefault (cp_totalQuantity ps) 1 \<and>
          p_lotQuantity p = orDefault (cp_totalQuantity ps) 1 \<and>
          p_inUseQuantity p = 0 \<and>
          productLots db' = productLots db @ new \<and>
          (0 \<le> orDefault (cp_totalQuantity ps) 1 \<longrightarrow>
             int (length new) = orDefault (cp_totalQuantity ps) 1) \<and>
          (orDefault (cp_totalQuantity ps) 1 \<le> 0 \<longrightarrow> new = []) \<and>
          list_all (isUnusedLotOf (p_id p)) new \<and>
          ((\<forall>l\<in>set (productLots db). lot_productId l \<noteq> nextId db) \<longrightarrow>
             filter (\<lambda>l. lot_productId l = p_id p) (productLots db') = new)"
    by (intro exI)
qed

theorem createProduct_lots_witness:
  "createProduct (exampleNewProduct 9 (Some 3)) (exampleDb exampleLots) =
     (Inl (StoreNotFound 9), exampleDb exampleLots) \<and>
   (\<exists>p db' new.
      createProduct (exampleNewProduct 1 (Some 3)) (exampleDb exampleLots) = (Inr p, db') \<and>
      p_lotQuantity p = 3 \<and> p_inUseQuantity p = 0 \<and>
      filter (\<lambda>l. lot_productId l = p_id p) (productLots db') = new \<and>
      int (length new) = 3 \<and> list_all (isUnusedLotOf (p_id p)) new) \<and>
   (\<exists>p db'.
      createProduct (exampleNewProduct 1 (Some (- 2))) (exampleDb exampleLots) = (Inr p, db') \<and>
      p_lotQuantity p = - 2 \<and> productLots db' = productLots (exampleDb exampleLots))"
proof -
  let ?db = "exampleDb exampleLots"
  have no: "stores ?db (cp_storeId (exampleNewProduct 9 (Some 3))) = None"
    by (simp add: exampleDb_def exampleNewProduct_def)
  from createProduct_lots [of ?db "exampleNewProduct 9 (Some 3)", THEN conjunct1, THEN mp, OF no]
  have 1: "createProduct (exampleNewProduct 9 (Some 3)) ?db = (Inl (StoreNotFound 9), ?db)"
    by (simp add: exampleNewProduct_def)
  let ?ps = "exampleNewProduct 1 (Some 3)"
  have yes: "stores ?db (cp_storeId ?ps) \<noteq> None"
    by (simp add: exampleDb_def exampleNewProduct_def)
  have fresh: "\<forall>l\<in>set (productLots ?db). lot_productId l \<noteq> nextId ?db"
    by (simp add: example_defs)
  have n: "orDefault (cp_totalQuantity ?ps) 1 = 3"
    by (simp add: exampleNewProduct_def orDefault_def)
  from createProduct_lots [of ?db ?ps, THEN conjunct2, THEN mp, OF yes]
  obtain p db' new where r:
    "createProduct ?ps ?db = (Inr p, db') \<and>
     products db' = (products ?db)(p_id p \<mapsto> p) \<and>
     p_totalQuantity p = orDefault (cp_totalQuantity ?ps) 1 \<and>
     p_lotQuantity p = orDefault (cp_totalQuantity ?ps) 1 \<and>
     p_inUseQuantity p = 0 \<and>
     productLots db' = productLots ?db @ new \<and>
     (0 \<le> orDefault (cp_totalQuantity ?ps) 1 \<longrightarrow>
        int (length new) = orDefault (cp_totalQuantity ?ps) 1) \<and>
     (orDefault (cp_totalQuantity ?ps) 1 \<le> 0 \<longrightarrow> new = []) \<and>
     list_all (isUnusedLotOf (p_id p)) new \<and>
     ((\<forall>l\<in>set (productLots ?db). lot_productId l \<noteq> nextId ?db) \<longrightarrow>
        filter (\<lambda>l. lot_productId l = p_id p) (productLots db') = new)"
    by blast
  note c1 = r [THEN conjunct1]
  note c4 = r [THEN conjunct2, THEN conjunct2, THEN conjunct2, THEN conjunct1]
  note c5 = r [THEN conjunct2, THEN conjunct2, THEN conjunct2, THEN conjunct2, THEN conjunct1]
  note c7 = r [THEN conjunct2, THEN conjunct2, THEN conjunct2, THEN conjunct2, THEN conjunct2,
      THEN conjunct2, THEN conjunct1]
  note c9 = r [THEN conjunct2, THEN conjunct2, THEN conjunct2, THEN conjunct2, THEN conjunct2,
      THEN conjunct2, THEN conjunct2, THEN conjunct2, THEN conjunct1]
  note c10 = r [THEN conjunct2, THEN conjunct2, THEN conjunct2, THEN conjunct2, THEN conjunct2,
      THEN conjunct2, THEN conjunct2, THEN conjunct2, THEN conjunct2]
  from c10 fresh have c10': "filter (\<lambda>l. lot_productId l = p_id p) (productLots db') = new"
    by (rule mp)
  from c4 c7 have c4': "p_lotQuantity p = 3" and c7': "int (length new) = 3"
    unfolding n by simp_all
  from c1 c4' c5 c10' c7' c9 have "createProduct ?ps ?db = (Inr p, db') \<and>
      p_lotQuantity p = 3 \<and> p_inUseQuantity p = 0 \<and>
      filter (\<lambda>l. lot_productId l = p_id p) (productLots db') = new \<and>
      int (length new) = 3 \<and> list_all (isUnusedLotOf (p_id p)) new"
    by (intro conjI)
  then have 2: "\<exists>p db' new.
      createProduct ?ps ?db = (Inr p, db') \<and>
      p_lotQuantity p = 3 \<and> p_inUseQuantity p = 0 \<and>
      filter (\<lambda>l. lot_productId l = p_id p) (productLots db') = new \<and>
      int (length new) = 3 \<and> list_all (isUnusedLotOf (p_id p)) new"
    by (intro exI)
  let ?neg = "exampleNewProduct 1 (Some (- 2))"
  have yes': "stores ?db (cp_storeId ?neg) \<noteq> None"
    by (simp add: exampleDb_def exampleNewProduct_def)
  have m: "orDefault (cp_totalQuantity ?neg) 1 = - 2"
    by (simp add: exampleNewProduct_def orDefault_def)
  from createProduct_lots [of ?db ?neg, THEN conjunct2, THEN mp, OF yes']
  obtain q dq newq where s:
    "createProduct ?neg ?db = (Inr q, dq) \<and>
     products dq = (products ?db)(p_id q \<mapsto> q) \<and>
     p_totalQuantity q = orDefault (cp_totalQuantity ?neg) 1 \<and>
     p_lotQuantity q = orDefault (cp_totalQuantity ?neg) 1 \<and>
     p_inUseQuantity q = 0 \<and>
     productLots dq = productLots ?db @ newq \<and>
     (0 \<le> orDefault (cp_totalQuantity ?neg) 1 \<longrightarrow>
        int (length newq) = orDefault (cp_totalQuantity ?neg) 1) \<and>
     (orDefault (cp_totalQuantity ?neg) 1 \<le> 0 \<longrightarrow> newq = []) \<and>
     list_all (isUnusedLotOf (p_id q)) newq \<and>
     ((\<forall>l\<in>set (productLots ?db). lot_productId l \<noteq> nextId ?db) \<longrightarrow>
        filter (\<lambda>l. lot_productId l = p_id q) (productLots dq) = newq)"
    by blast
  note d1 = s [THEN conjunct1]
  note d4 = s [THEN conjunct2, THEN conjunct2, THEN conjunct2, THEN conjunct1]
  note d6 = s [THEN conjunct2, THEN conjunct2, THEN conjunct2, THEN conjunct2, THEN conjunct2,
      THEN conjunct1]
  note d8 = s [THEN conjunct2, THEN conjunct2, THEN conjunct2, THEN conjunct2, THEN conjunct2,
      THEN conjunct2, THEN conjunct2, THEN conjunct1]
  from d8 have e: "newq = []" unfolding m by simp
  from d4 have d4': "p_lotQuantity q = - 2" unfolding m .
  from d6 have d6': "productLots dq = productLots ?db" unfolding e by simp
  from d1 d4' d6' have "createProduct ?neg ?db = (Inr q, dq) \<and>
      p_lotQuantity q = - 2 \<and> productLots dq = productLots ?db"
    by (intro conjI)
  then have 3: "\<exists>p db'. createProduct ?neg ?db = (Inr p, db') \<and>
      p_lotQuantity p = - 2 \<and> productLots db' = productLots ?db"
    by (intro exI)
  from 1 2 3 show ?thesis by (intro conjI)
qed

text \<open>
  C8. The claim says the length rate is multiplied by \<open>designUsageRate\<close> whenever that
  rate is set. A rate set to 0 is skipped by the test \<open>if (serviceType.designUsageRate)\<close>:
  the code returns 0.4 where the claimed formula gives 0.
\<close>

theorem calculateAdjustedUsageAmount_counterexample:
  "st_designUsageRate (exampleServiceType (Some (Finite 0))) = Some (Finite 0) \<and>
   calculateAdjustedUsageAmount (exampleServiceType (Some (Finite 0))) (Finite (1 / 2)) SHORT =
     Finite (3602879701896397 / 9007199254740992) \<and>
   toDouble (2 / 5) = Finite (3602879701896397 / 9007199254740992) \<and>
   claimedAdjustedUsageAmount (exampleServiceType (Some (Finite 0))) (Finite (1 / 2)) SHORT =
     Finite 0"
  by (simp add: calculateAdjustedUsageAmount_def claimedAdjustedUsageAmount_def lengthRate_def
      exampleServiceType_def double_defs)

text \<open>
  C8, as amended. All arithmetic is in doubles. \<open>calculateAdjustedUsageAmount\<close> is the
  claimed amount whenever \<open>designUsageRate\<close> is null or passes the test \<open>if (x)\<close>, that
  is, is neither 0 nor NaN; with a rate of 0 or NaN it is the amount without design
  factor. The percentage applied is then an integer within 1/2 of the double product of
  the length rate and the design rate. The result is \<open>toFixed(2)\<close> of the double product
  of \<open>baseAmount\<close> and the double quotient of that percentage by 100: when this product
  is finite and below \<open>10\<^sup>2\<^sup>1\<close>, the double nearest to a multiple of 1/100 that is within
  1/200 of it. For \<open>baseAmount = 0.5\<close>, rates 80/100/150 and no design rate the results
  are the doubles 0.4, 0.5 and 0.75.
\<close>

theorem calculateAdjustedUsageAmount_spec:
  "(st_designUsageRate st = None \<or> (\<exists>d. st_designUsageRate st = Some d \<and> js_truthy d) \<longrightarrow>
      calculateAdjustedUsageAmount st b len = claimedAdjustedUsageAmount st b len) \<and>
   (\<forall>d. st_designUsageRate st = Some d \<and> \<not> js_truthy d \<longrightarrow>
      calculateAdjustedUsageAmount st b len =
        toFixed2 (js_times b (js_div100 (Finite (of_int (lengthRate st len)))))) \<and>
   (\<forall>d m. st_designUsageRate st = Some d \<and> js_truthy d \<and>
          js_times (Finite (of_int (lengthRate st len))) d = Finite m \<longrightarrow>
      (\<exists>k::int. appliedRate st len = Finite (of_int k) \<and> \<bar>of_int k - m\<bar> \<le> 1 / 2)) \<and>
   calculateAdjustedUsageAmount st b len =
     toFixed2 (js_times b (js_div100 (appliedRate st len))) \<and>
   (\<forall>p. js_times b (js_div100 (appliedRate st len)) = Finite p \<and> \<bar>p\<bar> < 10 ^ 21 \<longrightarrow>
      (\<exists>k::int. calculateAdjustedUsageAmount st b len = toDouble (of_int k / 100) \<and>
                \<bar>of_int k / 100 - p\<bar> \<le> 1 / 200)) \<and>
   (st_shortLengthRate st = 80 \<and> st_mediumLengthRate st = 100 \<and> st_longLengthRate st = 150 \<and>
    st_designUsageRate st = None \<longrightarrow>
      calculateAdjustedUsageAmount st (Finite (1 / 2)) SHORT = toDouble (2 / 5) \<and>
      calculateAdjustedUsageAmount st (Finite (1 / 2)) MEDIUM = toDouble (1 / 2) \<and>
      calculateAdjustedUsageAmount st (Finite (1 / 2)) LONG = toDouble (3 / 4))"
proof (intro conjI impI allI)
  assume "st_designUsageRate st = None \<or> (\<exists>d. st_designUsageRate st = Some d \<and> js_truthy d)"
  then show "calculateAdjustedUsageAmount st b len = claimedAdjustedUsageAmount st b len"
    by (cases len; cases "st_designUsageRate st")
       (simp_all add: calculateAdjustedUsageAmount_def claimedAdjustedUsageAmount_def lengthRate_def)
next
  fix d
  assume "st_designUsageRate st = Some d \<and> \<not> js_truthy d"
  then show "calculateAdjustedUsageAmount st b len =
        toFixed2 (js_times b (js_div100 (Finite (of_int (lengthRate st len)))))"
    by (simp add: calculate_applied appliedRate_def)
next
  fix d m
  assume a: "st_designUsageRate st = Some d \<and> js_truthy d \<and>
          js_times (Finite (of_int (lengthRate st len))) d = Finite m"
  then have "appliedRate st len = Math_round (Finite m)"
    by (simp add: appliedRate_def)
  with Math_round_close [of m]
  show "\<exists>k::int. appliedRate st len = Finite (of_int k) \<and> \<bar>of_int k - m\<bar> \<le> 1 / 2"
    by simp
next
  show "calculateAdjustedUsageAmount st b len =
     toFixed2 (js_times b (js_div100 (appliedRate st len)))"
    by (rule calculate_applied)
next
  fix p
  assume "js_times b (js_div100 (appliedRate st len)) = Finite p \<and> \<bar>p\<bar> < 10 ^ 21"
  then have p: "calculateAdjustedUsageAmount st b len = toFixed2 (Finite p)" and "\<bar>p\<bar> < 10 ^ 21"
    by (simp_all add: calculate_applied)
  with toFixed2_hundredths [of p]
  show "\<exists>k::int. calculateAdjustedUsageAmount st b len = toDouble (of_int k / 100) \<and>
                \<bar>of_int k / 100 - p\<bar> \<le> 1 / 200"
    by (simp only: p)
next
  assume a: "st_shortLengthRate st = 80 \<and> st_mediumLengthRate st = 100 \<and>
    st_longLengthRate st = 150 \<and> st_designUsageRate st = None"
  then show "calculateAdjustedUsageAmount st (Finite (1 / 2)) SHORT = toDouble (2 / 5)"
    by (simp add: calculateAdjustedUsageAmount_def double_defs)
  from a show "calculateAdjustedUsageAmount st (Finite (1 / 2)) MEDIUM = toDouble (1 / 2)"
    by (simp add: calculateAdjustedUsageAmount_def double_defs)
  from a show "calculateAdjustedUsageAmount st (Finite (1 / 2)) LONG = toDouble (3 / 4)"
    by (simp add: calculateAdjustedUsageAmount_def double_defs)
qed

theorem calculateAdjustedUsageAmount_spec_witness:
  "calculateAdjustedUsageAmount (exampleServiceType (Some (toDouble (6 / 5)))) (Finite (1 / 2)) SHORT =
     toDouble (12 / 25) \<and>
   claimedAdjustedUsageAmount (exampleServiceType (Some (toDouble (6 / 5)))) (Finite (1 / 2)) SHORT =
     toDouble (12 / 25) \<and>
   calculateAdjustedUsageAmount (exampleServiceType (Some (Finite 0))) (Finite (1 / 2)) SHORT =
     toDouble (2 / 5) \<and>
   calculateAdjustedUsageAmount (exampleServiceType None) (Finite (1 / 2)) SHORT = toDouble (2 / 5) \<and>
   calculateAdjustedUsageAmount (exampleServiceType None) (Finite (1 / 2)) MEDIUM = toDouble (1 / 2) \<and>
   calculateAdjustedUsageAmount (exampleServiceType None) (Finite (1 / 2)) LONG = toDouble (3 / 4) \<and>
   calculateAdjustedUsageAmount ((exampleServiceType None)\<lparr>st_shortLengthRate := 85\<rparr>)
     (Finite (1 / 2)) SHORT = toDouble (21 / 50) \<and>
   js_times (Finite (1 / 2)) (js_div100 (Finite 85)) =
     Finite (7656119366529843 / 18014398509481984) \<and>
   (7656119366529843 / 18014398509481984 :: rat) < 17 / 40 \<and>
   js_times (Finite 80) (toDouble (6 / 5)) = Finite 96 \<and>
   (\<exists>k::int. appliedRate (exampleServiceType (Some (toDouble (6 / 5)))) SHORT = Finite (of_int k) \<and>
             \<bar>of_int k - (96::rat)\<bar> \<le> 1 / 2) \<and>
   (\<exists>k::int. calculateAdjustedUsageAmount ((exampleServiceType None)\<lparr>st_shortLengthRate := 85\<rparr>)
               (Finite (1 / 2)) SHORT = toDouble (of_int k / 100) \<and>
             \<bar>of_int k / 100 - 7656119366529843 / 18014398509481984\<bar> \<le> (1 / 200 :: rat))"
proof -
  let ?french = "exampleServiceType (Some (toDouble (6 / 5)))"
  have a: "st_designUsageRate ?french = None \<or>
      (\<exists>d. st_designUsageRate ?french = Some d \<and> js_truthy d)"
    by (simp add: exampleServiceType_def double_defs)
  have 2: "claimedAdjustedUsageAmount ?french (Finite (1 / 2)) SHORT = toDouble (12 / 25)"
    by (simp add: claimedAdjustedUsageAmount_def lengthRate_def exampleServiceType_def double_defs)
  from calculateAdjustedUsageAmount_spec [of ?french "Finite (1 / 2)" SHORT, THEN conjunct1,
      THEN mp, OF a] 2
  have 1: "calculateAdjustedUsageAmount ?french (Finite (1 / 2)) SHORT = toDouble (12 / 25)"
    by (simp only:)
  let ?zero = "exampleServiceType (Some (Finite 0))"
  have z: "st_designUsageRate ?zero = Some (Finite 0) \<and> \<not> js_truthy (Finite 0)"
    by (simp add: exampleServiceType_def)
  from calculateAdjustedUsageAmount_spec [of ?zero "Finite (1 / 2)" SHORT, THEN conjunct2,
      THEN conjunct1, THEN spec, THEN mp, OF z]
  have 3: "calculateAdjustedUsageAmount ?zero (Finite (1 / 2)) SHORT = toDouble (2 / 5)"
    by (simp add: lengthRate_def exampleServiceType_def double_defs)
  let ?plain = "exampleServiceType None"
  have e: "st_shortLengthRate ?plain = 80 \<and> st_mediumLengthRate ?plain = 100 \<and>
      st_longLengthRate ?plain = 150 \<and> st_designUsageRate ?plain = None"
    by (simp add: exampleServiceType_def)
  from calculateAdjustedUsageAmount_spec [of ?plain b len for b len, THEN conjunct2, THEN conjunct2,
      THEN conjunct2, THEN conjunct2, THEN conjunct2, THEN mp, OF e]
  have 4: "calculateAdjustedUsageAmount ?plain (Finite (1 / 2)) SHORT = toDouble (2 / 5) \<and>
      calculateAdjustedUsageAmount ?plain (Finite (1 / 2)) MEDIUM = toDouble (1 / 2) \<and>
      calculateAdjustedUsageAmount ?plain (Finite (1 / 2)) LONG = toDouble (3 / 4)" .
  let ?st85 = "(exampleServiceType None)\<lparr>st_shortLengthRate := 85\<rparr>"
  have n: "st_designUsageRate ?st85 = None \<or> (\<exists>d. st_designUsageRate ?st85 = Some d \<and> js_truthy d)"
    by (simp add: exampleServiceType_def)
  have "claimedAdjustedUsageAmount ?st85 (Finite (1 / 2)) SHORT = toDouble (21 / 50)"
    by (simp add: claimedAdjustedUsageAmount_def lengthRate_def exampleServiceType_def double_defs)
  with calculateAdjustedUsageAmount_spec [of ?st85 "Finite (1 / 2)" SHORT, THEN conjunct1,
      THEN mp, OF n]
  have 5: "calculateAdjustedUsageAmount ?st85 (Finite (1 / 2)) SHORT = toDouble (21 / 50)"
    by (simp only:)
  have 6: "js_times (Finite (1 / 2)) (js_div100 (Finite 85)) =
     Finite (7656119366529843 / 18014398509481984)"
    by (simp add: double_defs)
  have 7: "(7656119366529843 / 18014398509481984 :: rat) < 17 / 40"
    by simp
  have 8: "js_times (Finite 80) (toDouble (6 / 5)) = Finite 96"
    by (simp add: double_defs)
  have h3: "st_designUsageRate ?french = Some (toDouble (6 / 5)) \<and> js_truthy (toDouble (6 / 5)) \<and>
      js_times (Finite (of_int (lengthRate ?french SHORT))) (toDouble (6 / 5)) = Finite 96"
    by (simp add: exampleServiceType_def lengthRate_def double_defs)
  from calculateAdjustedUsageAmount_spec [of ?french "Finite (1 / 2)" SHORT, THEN conjunct2,
      THEN conjunct2, THEN conjunct1, THEN spec, THEN spec, THEN mp, OF h3]
  have 9: "\<exists>k::int. appliedRate ?french SHORT = Finite (of_int k) \<and>
      \<bar>of_int k - (96::rat)\<bar> \<le> 1 / 2" .
  have h5: "js_times (Finite (1 / 2)) (js_div100 (appliedRate ?st85 SHORT)) =
        Finite (7656119366529843 / 18014398509481984) \<and>
      \<bar>7656119366529843 / 18014398509481984 :: rat\<bar> < 10 ^ 21"
    by (simp add: appliedRate_def lengthRate_def exampleServiceType_def double_defs)
  from calculateAdjustedUsageAmount_spec [of ?st85 "Finite (1 / 2)" SHORT, THEN conjunct2,
      THEN conjunct2, THEN conjunct2, THEN conjunct2, THEN conjunct1, THEN spec, THEN mp, OF h5]
  have 10: "\<exists>k::int. calculateAdjustedUsageAmount ?st85 (Finite (1 / 2)) SHORT =
        toDouble (of_int k / 100) \<and>
      \<bar>of_int k / 100 - 7656119366529843 / 18014398509481984\<bar> \<le> (1 / 200 :: rat)" .
  from 1 2 3 4 5 6 7 have "calculateAdjustedUsageAmount ?french (Finite (1 / 2)) SHORT =
       toDouble (12 / 25) \<and>
     claimedAdjustedUsageAmount ?french (Finite (1 / 2)) SHORT = toDouble (12 / 25) \<and>
     calculateAdjustedUsageAmount ?zero (Finite (1 / 2)) SHORT = toDouble (2 / 5) \<and>
     calculateAdjustedUsageAmount ?plain (Finite (1 / 2)) SHORT = toDouble (2 / 5) \<and>
     calculateAdjustedUsageAmount ?plain (Finite (1 / 2)) MEDIUM = toDouble (1 / 2) \<and>
     calculateAdjustedUsageAmount ?plain (Finite (1 / 2)) LONG = toDouble (3 / 4) \<and>
     calculateAdjustedUsageAmount ?st85 (Finite (1 / 2)) SHORT = toDouble (21 / 50) \<and>
     js_times (Finite (1 / 2)) (js_div100 (Finite 85)) =
       Finite (7656119366529843 / 18014398509481984) \<and>
     (7656119366529843 / 18014398509481984 :: rat) < 17 / 40"
    by (intro conjI) simp_all
  with 8 9 10 show ?thesis by (simp only: conj_assoc simp_thms)
qed

text \<open>
  C9. After \<open>updateMonthlyStats\<close> there is a row for the service type and the year and
  month of the date. When there was none, it has \<open>totalUsage = amount\<close>,
  \<open>usageCount = 1\<close> and \<open>averageUsage = amount\<close>; when there was one, \<open>totalUsage\<close> has
  grown by the amount, \<open>usageCount\<close> by one, and \<open>averageUsage\<close> is the new total over
  the new count. In both cases \<open>averageUsage = totalUsage / usageCount\<close>. Starting
  without a row, a usage of 0.6 gives 0.6, 1, 0.6, and a following usage of 0.4 gives 1.0,
  2, 0.5.
\<close>

theorem updateMonthlyStats_spec:
  "(\<exists>row. monthlyServiceStats (updateMonthlyStats s a d db)
             (s, getFullYear d, int (getMonth d) + 1) = Some row \<and>
      (case monthlyServiceStats db (s, getFullYear d, int (getMonth d) + 1) of
         None \<Rightarrow> ms_totalUsage row = a \<and> ms_usageCount row = 1 \<and> ms_averageUsage row = a \<and>
                 ms_serviceTypeId row = s \<and> ms_year row = getFullYear d \<and>
                 ms_month row = int (getMonth d) + 1
       | Some old \<Rightarrow>
           ms_totalUsage row = ms_totalUsage old + a \<and>
           ms_usageCount row = ms_usageCount old + 1 \<and>
           ms_averageUsage row = ms_totalUsage row / of_nat (ms_usageCount row)) \<and>
      ms_averageUsage row = ms_totalUsage row / of_nat (ms_usageCount row)) \<and>
   (monthlyServiceStats db (s, getFullYear d, int (getMonth d) + 1) = None \<longrightarrow>
      map_option (\<lambda>r. (ms_totalUsage r, ms_usageCount r, ms_averageUsage r))
        (monthlyServiceStats (updateMonthlyStats s (3 / 5) d db)
           (s, getFullYear d, int (getMonth d) + 1)) = Some (3 / 5, 1, 3 / 5) \<and>
      map_option (\<lambda>r. (ms_totalUsage r, ms_usageCount r, ms_averageUsage r))
        (monthlyServiceStats (updateMonthlyStats s (2 / 5) d (updateMonthlyStats s (3 / 5) d db))
           (s, getFullYear d, int (getMonth d) + 1)) = Some (1, 2, 1 / 2))"
  by (simp add: updateMonthlyStats_def Let_def split: option.split)

theorem updateMonthlyStats_spec_witness:
  "monthlyServiceStats (exampleDb exampleLots) (30, 2025, 3) = None \<and>
   map_option (\<lambda>r. (ms_totalUsage r, ms_usageCount r, ms_averageUsage r))
     (monthlyServiceStats (updateMonthlyStats 30 (3 / 5) (exampleDate 300) (exampleDb exampleLots))
        (30, 2025, 3)) = Some (3 / 5, 1, 3 / 5) \<and>
   map_option (\<lambda>r. (ms_totalUsage r, ms_usageCount r, ms_averageUsage r))
     (monthlyServiceStats
        (updateMonthlyStats 30 (2 / 5) (exampleDate 300)
           (updateMonthlyStats 30 (3 / 5) (exampleDate 300) (exampleDb exampleLots)))
        (30, 2025, 3)) = Some (1, 2, 1 / 2)"
proof -
  let ?db = "exampleDb exampleLots"
  let ?d = "exampleDate 300"
  have k: "getFullYear ?d = 2025" "int (getMonth ?d) + 1 = 3"
    by (simp_all add: exampleDate_def)
  have none: "monthlyServiceStats ?db (30, getFullYear ?d, int (getMonth ?d) + 1) = None"
    by (simp add: exampleDb_def)
  from updateMonthlyStats_spec [of 30 _ ?d ?db, THEN conjunct2, THEN mp, OF none] none
  show ?thesis unfolding k by simp
qed

end
